theory Spec2Isabelle
  imports Main "HOL-Library.Product_Lexorder"
begin

section \<open>Python values and their string representation\<close>

text \<open>
  The handlers of the events platform are dynamically typed: an ORM attribute or a payload
  value is \<open>None\<close>, a bool, an int, a str, a \<open>Decimal\<close>, a \<open>datetime\<close> or a list.
  The audit diff of \<open>update_event\<close> compares values through the builtin \<open>str\<close>, so the
  builtin is modelled on each of these shapes.
\<close>

record datetime =
  year :: nat
  month :: nat
  day :: nat
  hour :: nat
  minute :: nat
  second :: nat
  microsecond :: nat
  utcoffset :: "int option"

text \<open>
  \<open>PDecimal sign coefficient exponent\<close> is a finite \<open>decimal.Decimal\<close>:
  \<open>Decimal("10.00")\<close> is \<open>PDecimal False 1000 (-2)\<close>.
\<close>

datatype pyval =
    PNone
  | PBool bool
  | PInt int
  | PStr string
  | PDecimal bool nat int
  | PDatetime datetime
  | PList "pyval list"

fun str_nat :: "nat \<Rightarrow> string" where
  "str_nat n = (if n < 10 then [''0123456789'' ! n]
                else str_nat (n div 10) @ [''0123456789'' ! (n mod 10)])"

declare str_nat.simps [simp del]

definition str_int :: "int \<Rightarrow> string" where
  "str_int i = (if i < 0 then ''-'' @ str_nat (nat (- i)) else str_nat (nat i))"

definition zpad :: "nat \<Rightarrow> nat \<Rightarrow> string" where
  "zpad w n = replicate (w - length (str_nat n)) (CHR ''0'') @ str_nat n"

text \<open>\<open>Decimal.__str__\<close>: plain notation when the exponent is not positive and more than
  \<open>-6\<close> digits stand left of the point, scientific notation otherwise.\<close>

definition str_decimal :: "bool \<Rightarrow> nat \<Rightarrow> int \<Rightarrow> string" where
  "str_decimal neg coeff ex =
     (let sign = (if neg then ''-'' else '''');
          ds = str_nat coeff;
          leftdigits = ex + int (length ds);
          dotplace = (if ex \<le> 0 \<and> leftdigits > - 6 then leftdigits else 1);
          intpart = (if dotplace \<le> 0 then ''0''
                     else if dotplace \<ge> int (length ds)
                     then ds @ replicate (nat (dotplace - int (length ds))) (CHR ''0'')
                     else take (nat dotplace) ds);
          fracpart = (if dotplace \<le> 0 then ''.'' @ replicate (nat (- dotplace)) (CHR ''0'') @ ds
                      else if dotplace \<ge> int (length ds) then ''''
                      else ''.'' @ drop (nat dotplace) ds);
          expo = (if leftdigits = dotplace then ''''
                 else ''E'' @ (if leftdigits - dotplace < 0 then ''-'' else ''+'')
                          @ str_nat (nat \<bar>leftdigits - dotplace\<bar>))
      in sign @ intpart @ fracpart @ expo)"

text \<open>\<open>datetime.__str__\<close> is \<open>isoformat(sep=' ')\<close>; the offset is kept in whole seconds.\<close>

definition str_offset :: "int \<Rightarrow> string" where
  "str_offset off =
     (let a = nat \<bar>off\<bar>;
          hh = a div 3600; mm = (a mod 3600) div 60; ss = a mod 60
      in (if off < 0 then ''-'' else ''+'') @ zpad 2 hh @ '':'' @ zpad 2 mm
         @ (if ss \<noteq> 0 then '':'' @ zpad 2 ss else ''''))"

definition str_datetime :: "datetime \<Rightarrow> string" where
  "str_datetime d =
     zpad 4 (year d) @ ''-'' @ zpad 2 (month d) @ ''-'' @ zpad 2 (day d) @ '' ''
     @ zpad 2 (hour d) @ '':'' @ zpad 2 (minute d) @ '':'' @ zpad 2 (second d)
     @ (if microsecond d \<noteq> 0 then ''.'' @ zpad 6 (microsecond d) else '''')
     @ (case utcoffset d of None \<Rightarrow> '''' | Some off \<Rightarrow> str_offset off)"

fun join_comma :: "string list \<Rightarrow> string" where
  "join_comma [] = ''''"
| "join_comma [x] = x"
| "join_comma (x # y # ys) = x @ '', '' @ join_comma (y # ys)"

text \<open>The builtin \<open>str\<close>. A list prints the \<open>repr\<close> of its elements; only lists of ints occur
  (the tag selection), for which \<open>repr\<close> and \<open>str\<close> agree.\<close>

fun py_str :: "pyval \<Rightarrow> string" where
  "py_str PNone = ''None''"
| "py_str (PBool b) = (if b then ''True'' else ''False'')"
| "py_str (PInt i) = str_int i"
| "py_str (PStr s) = s"
| "py_str (PDecimal neg c e) = str_decimal neg c e"
| "py_str (PDatetime d) = str_datetime d"
| "py_str (PList xs) = ''['' @ join_comma (map py_str xs) @ '']''"

section \<open>The relational schema\<close>

text \<open>
  One record per mapped class of \<open>src/models\<close>. The attributes of an \<open>Event\<close> instance hold
  Python values while a handler runs (\<open>setattr\<close> stores whatever the payload carries); the
  declared column constraints are checked when the session commits.
\<close>

record User =
  user_pk :: int
  email :: string
  password_hash :: string
  role :: string

record Organizer =
  organizer_pk :: int
  organizer_name :: string
  website :: "string option"
  contact_email :: "string option"
  organizer_description :: "string option"

record City =
  city_pk :: int
  city_name :: string
  country_id :: int

record Tag =
  tag_pk :: int
  tag_name :: string

record EventTag =
  event_id :: int
  tag_id :: int

record Bookmark =
  bm_user_id :: int
  bm_event_id :: int
  added_at :: datetime

record EventAuditLog =
  log_pk :: "int option"
  log_event_id :: int
  changed_by :: "int option"
  changed_column :: string
  old_value :: "string option"
  new_value :: "string option"
  change_date :: "datetime option"

record Event =
  ev_id :: int
  title :: pyval
  organizer_id :: pyval
  date_start :: pyval
  description :: pyval
  image_url :: pyval
  website_url :: pyval
  price :: pyval
  date_end :: pyval
  registration_deadline :: pyval
  city_id :: pyval
  location_address :: pyval
  is_online :: pyval
  created_at :: pyval
  updated_at :: pyval

text \<open>
  The mapped columns of \<open>Event\<close> other than the primary key, in the order of
  \<open>src/models/event.py\<close>, and the attribute name of each.
\<close>

datatype column =
    C_title
  | C_organizer_id
  | C_date_start
  | C_description
  | C_image_url
  | C_website_url
  | C_price
  | C_date_end
  | C_registration_deadline
  | C_city_id
  | C_location_address
  | C_is_online
  | C_created_at
  | C_updated_at

fun column_name :: "column \<Rightarrow> string" where
  "column_name C_title = ''title''"
| "column_name C_organizer_id = ''organizer_id''"
| "column_name C_date_start = ''date_start''"
| "column_name C_description = ''description''"
| "column_name C_image_url = ''image_url''"
| "column_name C_website_url = ''website_url''"
| "column_name C_price = ''price''"
| "column_name C_date_end = ''date_end''"
| "column_name C_registration_deadline = ''registration_deadline''"
| "column_name C_city_id = ''city_id''"
| "column_name C_location_address = ''location_address''"
| "column_name C_is_online = ''is_online''"
| "column_name C_created_at = ''created_at''"
| "column_name C_updated_at = ''updated_at''"

definition columns :: "column list" where
  "columns = [C_title, C_organizer_id, C_date_start, C_description, C_image_url, C_website_url, C_price, C_date_end, C_registration_deadline, C_city_id, C_location_address, C_is_online, C_created_at, C_updated_at]"

fun get_column :: "Event \<Rightarrow> column \<Rightarrow> pyval" where
  "get_column ev C_title = title ev"
| "get_column ev C_organizer_id = organizer_id ev"
| "get_column ev C_date_start = date_start ev"
| "get_column ev C_description = description ev"
| "get_column ev C_image_url = image_url ev"
| "get_column ev C_website_url = website_url ev"
| "get_column ev C_price = price ev"
| "get_column ev C_date_end = date_end ev"
| "get_column ev C_registration_deadline = registration_deadline ev"
| "get_column ev C_city_id = city_id ev"
| "get_column ev C_location_address = location_address ev"
| "get_column ev C_is_online = is_online ev"
| "get_column ev C_created_at = created_at ev"
| "get_column ev C_updated_at = updated_at ev"

fun set_column :: "Event \<Rightarrow> column \<Rightarrow> pyval \<Rightarrow> Event" where
  "set_column ev C_title v = ev\<lparr>title := v\<rparr>"
| "set_column ev C_organizer_id v = ev\<lparr>organizer_id := v\<rparr>"
| "set_column ev C_date_start v = ev\<lparr>date_start := v\<rparr>"
| "set_column ev C_description v = ev\<lparr>description := v\<rparr>"
| "set_column ev C_image_url v = ev\<lparr>image_url := v\<rparr>"
| "set_column ev C_website_url v = ev\<lparr>website_url := v\<rparr>"
| "set_column ev C_price v = ev\<lparr>price := v\<rparr>"
| "set_column ev C_date_end v = ev\<lparr>date_end := v\<rparr>"
| "set_column ev C_registration_deadline v = ev\<lparr>registration_deadline := v\<rparr>"
| "set_column ev C_city_id v = ev\<lparr>city_id := v\<rparr>"
| "set_column ev C_location_address v = ev\<lparr>location_address := v\<rparr>"
| "set_column ev C_is_online v = ev\<lparr>is_online := v\<rparr>"
| "set_column ev C_created_at v = ev\<lparr>created_at := v\<rparr>"
| "set_column ev C_updated_at v = ev\<lparr>updated_at := v\<rparr>"

definition column_of :: "string \<Rightarrow> column option" where
  "column_of name = find (\<lambda>c. column_name c = name) columns"

text \<open>\<open>getattr(event, name, default)\<close> and \<open>setattr(event, name, value)\<close> on a mapped
  \<open>Event\<close>. The primary key is never assigned by a handler; a name that is no column leaves
  every column as it is.\<close>

definition getattr :: "Event \<Rightarrow> string \<Rightarrow> pyval \<Rightarrow> pyval" where
  "getattr ev name dflt =
     (if name = ''id'' then PInt (ev_id ev)
      else case column_of name of Some c \<Rightarrow> get_column ev c | None \<Rightarrow> dflt)"

definition setattr :: "Event \<Rightarrow> string \<Rightarrow> pyval \<Rightarrow> Event" where
  "setattr ev name v =
     (case column_of name of Some c \<Rightarrow> set_column ev c v | None \<Rightarrow> ev)"

section \<open>Errors, and the builtin int\<close>

datatype violation = NotNullViolation | UniqueViolation | ForeignKeyViolation

datatype error =
    HTTPException nat
  | IntegrityError violation
  | AssertionError
  | AttributeError
  | TypeError
  | ValueError
  | KeyError
  | JWTError

definition is_space :: "char \<Rightarrow> bool" where
  "is_space c = (let n = (of_char c :: nat) in (9 \<le> n \<and> n \<le> 13) \<or> (28 \<le> n \<and> n \<le> 32))"

definition is_digit :: "char \<Rightarrow> bool" where
  "is_digit c = (let n = (of_char c :: nat) in 48 \<le> n \<and> n \<le> 57)"

definition strip :: "string \<Rightarrow> string" where
  "strip s = rev (dropWhile is_space (rev (dropWhile is_space s)))"

text \<open>Decimal digits with single underscores between them, as \<open>int\<close> reads them.\<close>

fun parse_digits :: "nat \<Rightarrow> bool \<Rightarrow> string \<Rightarrow> nat option" where
  "parse_digits acc prev [] = (if prev then Some acc else None)"
| "parse_digits acc prev (c # cs) =
     (if is_digit c then parse_digits (10 * acc + (of_char c - 48)) True cs
      else if c = CHR ''_'' \<and> prev then parse_digits acc False cs
      else None)"

definition int_of_str :: "string \<Rightarrow> int option" where
  "int_of_str s =
     (case strip s of
        [] \<Rightarrow> None
      | c # cs \<Rightarrow>
          if c = CHR ''-'' then map_option (\<lambda>n. - int n) (parse_digits 0 False cs)
          else if c = CHR ''+'' then map_option int (parse_digits 0 False cs)
          else map_option int (parse_digits 0 False (c # cs)))"

text \<open>\<open>int(x)\<close>: a \<open>str\<close> is parsed (\<open>ValueError\<close> when it is no literal), a \<open>Decimal\<close> is
  truncated towards zero, \<open>None\<close>, a list or a \<open>datetime\<close> raise \<open>TypeError\<close>.\<close>

fun py_int :: "pyval \<Rightarrow> error + int" where
  "py_int PNone = Inl TypeError"
| "py_int (PBool b) = Inr (if b then 1 else 0)"
| "py_int (PInt i) = Inr i"
| "py_int (PStr s) = (case int_of_str s of None \<Rightarrow> Inl ValueError | Some i \<Rightarrow> Inr i)"
| "py_int (PDecimal neg c e) =
     (let m = (if e \<ge> 0 then c * 10 ^ nat e else c div 10 ^ nat (- e))
      in Inr (if neg then - int m else int m))"
| "py_int (PDatetime d) = Inl TypeError"
| "py_int (PList xs) = Inl TypeError"

section \<open>The database and the commit\<close>

text \<open>
  The state is the content of the tables together with the sequences that number their
  rows. A handler builds the state its session would write and commits it; a commit that
  violates a declared constraint raises \<open>IntegrityError\<close> and nothing is written. A sequence
  is taken to advance with the commit that draws from it.
\<close>

record db =
  users :: "User list"
  organizers :: "Organizer list"
  cities :: "City list"
  tags :: "Tag list"
  events :: "Event list"
  event_tags :: "EventTag list"
  bookmarks :: "Bookmark list"
  audit_log :: "EventAuditLog list"
  users_id_seq :: int
  organizers_id_seq :: int
  tags_id_seq :: int
  events_id_seq :: int
  audit_id_seq :: int

definition references :: "pyval \<Rightarrow> int list \<Rightarrow> bool" where
  "references v ids = (case v of PInt i \<Rightarrow> i \<in> set ids | _ \<Rightarrow> False)"

text \<open>The \<open>nullable=False\<close> columns of an \<open>events\<close> row.\<close>

definition event_not_null :: "Event \<Rightarrow> bool" where
  "event_not_null e =
     (title e \<noteq> PNone \<and> organizer_id e \<noteq> PNone \<and> date_start e \<noteq> PNone \<and> price e \<noteq> PNone
      \<and> is_online e \<noteq> PNone \<and> created_at e \<noteq> PNone)"

definition not_null_ok :: "db \<Rightarrow> bool" where
  "not_null_ok s = list_all event_not_null (events s)"

text \<open>Primary keys, the composite keys of \<open>event_tags\<close> and \<open>bookmarks\<close>, and the
  \<open>unique=True\<close> columns.\<close>

definition unique_ok :: "db \<Rightarrow> bool" where
  "unique_ok s =
     (distinct (map user_pk (users s)) \<and> distinct (map email (users s))
      \<and> distinct (map organizer_pk (organizers s)) \<and> distinct (map organizer_name (organizers s))
      \<and> distinct (map city_pk (cities s))
      \<and> distinct (map tag_pk (tags s)) \<and> distinct (map tag_name (tags s))
      \<and> distinct (map ev_id (events s))
      \<and> distinct (map (\<lambda>et. (event_id et, tag_id et)) (event_tags s))
      \<and> distinct (map (\<lambda>b. (bm_user_id b, bm_event_id b)) (bookmarks s)))"

text \<open>The foreign keys of \<open>events\<close>, \<open>event_tags\<close>, \<open>bookmarks\<close> and \<open>event_audit_log\<close>.\<close>

definition event_fk_ok :: "db \<Rightarrow> Event \<Rightarrow> bool" where
  "event_fk_ok s e =
     (references (organizer_id e) (map organizer_pk (organizers s))
      \<and> (city_id e = PNone \<or> references (city_id e) (map city_pk (cities s))))"

definition event_tag_fk_ok :: "db \<Rightarrow> EventTag \<Rightarrow> bool" where
  "event_tag_fk_ok s et =
     (event_id et \<in> set (map ev_id (events s)) \<and> tag_id et \<in> set (map tag_pk (tags s)))"

definition bookmark_fk_ok :: "db \<Rightarrow> Bookmark \<Rightarrow> bool" where
  "bookmark_fk_ok s b =
     (bm_user_id b \<in> set (map user_pk (users s)) \<and> bm_event_id b \<in> set (map ev_id (events s)))"

definition audit_fk_ok :: "db \<Rightarrow> EventAuditLog \<Rightarrow> bool" where
  "audit_fk_ok s r =
     (log_event_id r \<in> set (map ev_id (events s))
      \<and> (case changed_by r of None \<Rightarrow> True | Some u \<Rightarrow> u \<in> set (map user_pk (users s))))"

definition foreign_keys_ok :: "db \<Rightarrow> bool" where
  "foreign_keys_ok s =
     (list_all (event_fk_ok s) (events s)
      \<and> list_all (event_tag_fk_ok s) (event_tags s)
      \<and> list_all (bookmark_fk_ok s) (bookmarks s)
      \<and> list_all (audit_fk_ok s) (audit_log s))"

definition integrity_ok :: "db \<Rightarrow> bool" where
  "integrity_ok s = (not_null_ok s \<and> unique_ok s \<and> foreign_keys_ok s)"

text \<open>
  The commit. Where the state to be written breaks constraints of several kinds, which one
  the database reports depends on the backend and on how the flush batches its statements;
  the model reports a missing value before a duplicate key, and a duplicate key before a
  dangling reference.
\<close>

definition first_violation :: "db \<Rightarrow> violation option" where
  "first_violation s =
     (if \<not> not_null_ok s then Some NotNullViolation
      else if \<not> unique_ok s then Some UniqueViolation
      else if \<not> foreign_keys_ok s then Some ForeignKeyViolation
      else None)"

definition commit :: "db \<Rightarrow> error + db" where
  "commit s' = (case first_violation s' of None \<Rightarrow> Inr s' | Some v \<Rightarrow> Inl (IntegrityError v))"

text \<open>The stored state after a request: a handler that raised has committed nothing.\<close>

definition state_after :: "db \<Rightarrow> error + db \<Rightarrow> db" where
  "state_after s r = (case r of Inl e \<Rightarrow> s | Inr s' \<Rightarrow> s')"

definition get_user :: "db \<Rightarrow> int \<Rightarrow> User option" where
  "get_user s uid = find (\<lambda>u. user_pk u = uid) (users s)"

definition get_event :: "db \<Rightarrow> int \<Rightarrow> Event option" where
  "get_event s eid = find (\<lambda>e. ev_id e = eid) (events s)"

definition get_tag :: "db \<Rightarrow> int \<Rightarrow> Tag option" where
  "get_tag s tid = find (\<lambda>t. tag_pk t = tid) (tags s)"

text \<open>The tag ids associated with an event.\<close>

definition tags_of :: "db \<Rightarrow> int \<Rightarrow> int set" where
  "tags_of s eid = tag_id ` {et \<in> set (event_tags s). event_id et = eid}"

section \<open>Access control gate\<close>

text \<open>
  A token as the verifier sees it: \<open>verifies\<close> says that its signature is good under the
  server's key and that it has not expired at the time of the request, \<open>payload\<close> is the
  dict of its claims. How a token is signed is the library's affair. \<open>jwt.decode\<close> also
  refuses a subject claim that is not a string.
\<close>

record jwt =
  verifies :: bool
  payload :: "string \<rightharpoonup> pyval"

definition jwt_decode :: "jwt \<Rightarrow> error + (string \<rightharpoonup> pyval)" where
  "jwt_decode t =
     (if \<not> verifies t then Inl JWTError
      else case payload t ''sub'' of
             None \<Rightarrow> Inr (payload t)
           | Some (PStr x) \<Rightarrow> Inr (payload t)
           | Some v \<Rightarrow> Inl JWTError)"

text \<open>\<open>d.get(k)\<close> and \<open>d.get(k, default)\<close> of a dict.\<close>

definition dict_get :: "(string \<rightharpoonup> pyval) \<Rightarrow> string \<Rightarrow> pyval \<Rightarrow> pyval" where
  "dict_get d k dflt = (case d k of None \<Rightarrow> dflt | Some v \<Rightarrow> v)"

text \<open>\<open>src/core/auth.py\<close>. A request without a bearer token is answered 401 by the
  \<open>oauth2_scheme\<close> dependency; \<open>JWTError\<close>, \<open>TypeError\<close> and \<open>ValueError\<close> become the
  credentials exception, and so does a subject that is no stored user.\<close>

definition get_current_user :: "db \<Rightarrow> jwt option \<Rightarrow> error + User" where
  "get_current_user s token =
     (case token of
        None \<Rightarrow> Inl (HTTPException 401)
      | Some t \<Rightarrow>
          (case jwt_decode t of
             Inl e \<Rightarrow> Inl (HTTPException 401)
           | Inr pl \<Rightarrow>
               (case py_int (dict_get pl ''sub'' PNone) of
                  Inl e \<Rightarrow> Inl (HTTPException 401)
                | Inr uid \<Rightarrow>
                    (case get_user s uid of
                       None \<Rightarrow> Inl (HTTPException 401)
                     | Some user \<Rightarrow> Inr user))))"

definition require_admin :: "db \<Rightarrow> jwt option \<Rightarrow> error + User" where
  "require_admin s token =
     (case get_current_user s token of
        Inl e \<Rightarrow> Inl e
      | Inr current_user \<Rightarrow>
          if role current_user \<noteq> ''admin'' then Inl (HTTPException 403) else Inr current_user)"

text \<open>\<open>src/routers/frontend_route.py\<close>: the cookie helpers. \<open>_get_user_from_cookie\<close>
  returns the subject and the role claim, or \<open>None\<close>; it catches \<open>JWTError\<close>, \<open>KeyError\<close>
  and \<open>ValueError\<close>, so a \<open>TypeError\<close> of \<open>int\<close> escapes.\<close>

definition get_user_from_cookie :: "jwt option \<Rightarrow> error + (int \<times> pyval) option" where
  "get_user_from_cookie cookie =
     (case cookie of
        None \<Rightarrow> Inr None
      | Some t \<Rightarrow>
          (case jwt_decode t of
             Inl e \<Rightarrow> Inr None
           | Inr pl \<Rightarrow>
               (case pl ''sub'' of
                  None \<Rightarrow> Inr None
                | Some sub \<Rightarrow>
                    (case py_int sub of
                       Inl e \<Rightarrow> (if e = ValueError then Inr None else Inl e)
                     | Inr uid \<Rightarrow> Inr (Some (uid, dict_get pl ''role'' (PStr ''user'')))))))"

definition get_current_user_cookie :: "db \<Rightarrow> jwt option \<Rightarrow> error + User option" where
  "get_current_user_cookie s cookie =
     (case get_user_from_cookie cookie of
        Inl e \<Rightarrow> Inl e
      | Inr None \<Rightarrow> Inr None
      | Inr (Some (user_id, _)) \<Rightarrow> Inr (get_user s user_id))"

definition require_admin_cookie :: "User option \<Rightarrow> error + User" where
  "require_admin_cookie user =
     (case user of
        None \<Rightarrow> Inl (HTTPException 403)
      | Some u \<Rightarrow> if role u \<noteq> ''admin'' then Inl (HTTPException 403) else Inr u)"

text \<open>The cookie dependency followed by \<open>_require_admin(user)\<close>, the first statement of every
  admin page handler.\<close>

definition admin_from_cookie :: "db \<Rightarrow> jwt option \<Rightarrow> error + User" where
  "admin_from_cookie s cookie =
     (case get_current_user_cookie s cookie of
        Inl e \<Rightarrow> Inl e
      | Inr user \<Rightarrow> require_admin_cookie user)"

section \<open>The update payload\<close>

text \<open>
  \<open>EventUpdate\<close> (\<open>src/schemas/event_schema.py\<close>) declares eleven optional fields. A
  validated payload is the dict of the scalar fields the request set explicitly, and the
  value of its \<open>tag_ids\<close> attribute, which is \<open>None\<close> when the request left it out or sent
  null. \<open>model_dump(exclude_unset=True, exclude={"tag_ids"})\<close> lists the set fields in the
  order the schema declares them: the validator fills the instance field by field in that
  order, whatever the order of the keys in the request body.
\<close>

definition EventUpdate_fields :: "string list" where
  "EventUpdate_fields =
     [''title'', ''description'', ''city_id'', ''website_url'', ''price'', ''date_start'',
      ''date_end'', ''registration_deadline'', ''location_address'', ''is_online'', ''tag_ids'']"

record EventUpdate =
  fields_set :: "string \<rightharpoonup> pyval"
  tag_ids :: "int list option"

definition model_dump :: "EventUpdate \<Rightarrow> (string \<times> pyval) list" where
  "model_dump p =
     List.map_filter (\<lambda>f. map_option (Pair f) (fields_set p f))
       (filter (\<lambda>f. f \<noteq> ''tag_ids'') EventUpdate_fields)"

text \<open>
  The request body is a JSON object: its keys in the order the client wrote them, a repeated
  key keeping its last value. Validation keeps the declared fields; the values are taken as
  already converted to the declared Python types, and a \<open>tag_ids\<close> that is neither null nor
  a list of ints is refused with 422.
\<close>

fun int_list :: "pyval list \<Rightarrow> int list option" where
  "int_list [] = Some []"
| "int_list (PInt i # vs) = map_option ((#) i) (int_list vs)"
| "int_list (v # vs) = None"

definition EventUpdate_validate :: "(string \<times> pyval) list \<Rightarrow> error + EventUpdate" where
  "EventUpdate_validate body =
     (let d = map_of (rev body);
          fs = (\<lambda>f. if f \<in> set EventUpdate_fields \<and> f \<noteq> ''tag_ids'' then d f else None)
      in case d ''tag_ids'' of
           None \<Rightarrow> Inr \<lparr>fields_set = fs, tag_ids = None\<rparr>
         | Some PNone \<Rightarrow> Inr \<lparr>fields_set = fs, tag_ids = None\<rparr>
         | Some (PList vs) \<Rightarrow>
             (case int_list vs of
                None \<Rightarrow> Inl (HTTPException 422)
              | Some ids \<Rightarrow> Inr \<lparr>fields_set = fs, tag_ids = Some ids\<rparr>)
         | Some _ \<Rightarrow> Inl (HTTPException 422))"

section \<open>Audit diff and event update\<close>

text \<open>The loop of \<open>update_event\<close> over \<open>update_data.items()\<close>: one pending
  \<open>EventAuditLog\<close> per field whose \<open>str\<close> changes, then the assignment.\<close>

fun audit_loop ::
  "int \<Rightarrow> int \<Rightarrow> (string \<times> pyval) list \<Rightarrow> Event \<Rightarrow> EventAuditLog list
     \<Rightarrow> Event \<times> EventAuditLog list" where
  "audit_loop eid admin_id [] event added = (event, added)"
| "audit_loop eid admin_id ((field, new_val) # rest) event added =
     (let old_val = getattr event field PNone;
          added' = (if py_str old_val \<noteq> py_str new_val
                    then added @ [\<lparr>log_pk = None, log_event_id = eid, changed_by = Some admin_id,
                                    changed_column = field,
                                    old_value = Some (py_str old_val),
                                    new_value = Some (py_str new_val),
                                    change_date = None\<rparr>]
                    else added)
      in audit_loop eid admin_id rest (setattr event field new_val) added')"

text \<open>The rows a committed request appended to the audit trail.\<close>

definition new_audit_rows :: "db \<Rightarrow> db \<Rightarrow> EventAuditLog list" where
  "new_audit_rows s s' = drop (length (audit_log s)) (audit_log s')"

text \<open>A field of an update whose string differs from the string of the stored value.\<close>

definition differs :: "Event \<Rightarrow> string \<times> pyval \<Rightarrow> bool" where
  "differs event fv = (py_str (getattr event (fst fv) PNone) \<noteq> py_str (snd fv))"

text \<open>The flush of the pending audit rows: the sequence gives each its key and the server
  default \<open>func.now()\<close> its date.\<close>

definition insert_audit_rows :: "datetime \<Rightarrow> EventAuditLog list \<Rightarrow> db \<Rightarrow> db" where
  "insert_audit_rows now rows s =
     s\<lparr>audit_log := audit_log s
          @ map (\<lambda>(k, r). r\<lparr>log_pk := Some (audit_id_seq s + 1 + int k), change_date := Some now\<rparr>)
              (enumerate 0 rows),
       audit_id_seq := audit_id_seq s + int (length rows)\<rparr>"

definition replace_event :: "Event \<Rightarrow> db \<Rightarrow> db" where
  "replace_event ev s = s\<lparr>events := map (\<lambda>e. if ev_id e = ev_id ev then ev else e) (events s)\<rparr>"

text \<open>The Core \<open>DELETE\<close> of every \<open>event_tags\<close> row of the event, then one pending row per
  supplied tag id.\<close>

definition replace_tags :: "int \<Rightarrow> int list \<Rightarrow> db \<Rightarrow> db" where
  "replace_tags eid tids s =
     s\<lparr>event_tags := filter (\<lambda>et. event_id et \<noteq> eid) (event_tags s)
          @ map (\<lambda>tid. \<lparr>event_id = eid, tag_id = tid\<rparr>) tids\<rparr>"

text \<open>
  \<open>PATCH /api/v1/event/{event_id}\<close>. \<open>now\<close> is the clock of the request, read naive by
  \<open>datetime.utcnow()\<close>. The handler's response (the event read back) is not modelled.
\<close>

definition update_event ::
  "datetime \<Rightarrow> db \<Rightarrow> jwt option \<Rightarrow> int \<Rightarrow> EventUpdate \<Rightarrow> error + db" where
  "update_event now s token eid p =
     (case require_admin s token of
        Inl e \<Rightarrow> Inl e
      | Inr admin \<Rightarrow>
          (case get_event s eid of
             None \<Rightarrow> Inl (HTTPException 404)
           | Some event \<Rightarrow>
               (let (event1, added) = audit_loop eid (user_pk admin) (model_dump p) event [];
                    s1 = (case tag_ids p of None \<Rightarrow> s | Some tids \<Rightarrow> replace_tags eid tids s);
                    event2 = event1\<lparr>updated_at := PDatetime (now\<lparr>utcoffset := None\<rparr>)\<rparr>
                in commit (insert_audit_rows now added (replace_event event2 s1)))))"

text \<open>The pending row the loop adds for a field that differs: field name, old string, new
  string.\<close>

definition pending_row :: "int \<Rightarrow> int \<Rightarrow> Event \<Rightarrow> string \<times> pyval \<Rightarrow> EventAuditLog" where
  "pending_row eid uid ev fv =
     \<lparr>log_pk = None, log_event_id = eid, changed_by = Some uid, changed_column = fst fv,
      old_value = Some (py_str (getattr ev (fst fv) PNone)), new_value = Some (py_str (snd fv)),
      change_date = None\<rparr>"

text \<open>The endpoint as the framework runs it: the \<open>require_admin\<close> dependency, then the
  validation of the body, then the handler.\<close>

definition patch_event ::
  "datetime \<Rightarrow> db \<Rightarrow> jwt option \<Rightarrow> int \<Rightarrow> (string \<times> pyval) list \<Rightarrow> error + db" where
  "patch_event now s token eid body =
     (case require_admin s token of
        Inl e \<Rightarrow> Inl e
      | Inr admin \<Rightarrow>
          (case EventUpdate_validate body of
             Inl e \<Rightarrow> Inl e
           | Inr p \<Rightarrow> update_event now s token eid p))"

section \<open>A small database\<close>

text \<open>
  Three events as in the filter example of the specification: A in city 1 and online, B in
  city 1 and not online, C in city 2 and online. Event A costs 10.00 and carries the tags 1
  and 2. User 1 is the administrator, user 2 is not.
\<close>

definition midnight :: "nat \<Rightarrow> nat \<Rightarrow> nat \<Rightarrow> datetime" where
  "midnight y m d = \<lparr>year = y, month = m, day = d, hour = 0, minute = 0, second = 0,
                     microsecond = 0, utcoffset = None\<rparr>"

definition example_event :: "int \<Rightarrow> string \<Rightarrow> int \<Rightarrow> bool \<Rightarrow> datetime \<Rightarrow> Event" where
  "example_event i name city online start =
     \<lparr>ev_id = i, title = PStr name, organizer_id = PInt 1, date_start = PDatetime start,
      description = PNone, image_url = PNone, website_url = PNone,
      price = PDecimal False 1000 (- 2), date_end = PNone, registration_deadline = PNone,
      city_id = PInt city, location_address = PNone, is_online = PBool online,
      created_at = PDatetime (midnight 2024 12 1), updated_at = PNone\<rparr>"

definition event_A :: Event where
  "event_A = example_event 1 ''A'' 1 True (midnight 2025 3 1)"

definition event_B :: Event where
  "event_B = example_event 2 ''B'' 1 False (midnight 2025 1 1)"

definition event_C :: Event where
  "event_C = example_event 3 ''C'' 2 True (midnight 2025 2 1)"

definition example_db :: db where
  "example_db =
     \<lparr>users = [\<lparr>user_pk = 1, email = ''admin@admin.com'', password_hash = ''h1'', role = ''admin''\<rparr>,
               \<lparr>user_pk = 2, email = ''guest@example.org'', password_hash = ''h2'', role = ''user''\<rparr>],
      organizers = [\<lparr>organizer_pk = 1, organizer_name = ''Guild'', website = None,
                     contact_email = None, organizer_description = None\<rparr>],
      cities = [\<lparr>city_pk = 1, city_name = ''Kyiv'', country_id = 1\<rparr>,
                \<lparr>city_pk = 2, city_name = ''Lviv'', country_id = 1\<rparr>],
      tags = [\<lparr>tag_pk = 1, tag_name = ''python''\<rparr>, \<lparr>tag_pk = 2, tag_name = ''data''\<rparr>,
              \<lparr>tag_pk = 3, tag_name = ''cloud''\<rparr>],
      events = [event_A, event_B, event_C],
      event_tags = [\<lparr>event_id = 1, tag_id = 1\<rparr>, \<lparr>event_id = 1, tag_id = 2\<rparr>],
      bookmarks = [],
      audit_log = [],
      users_id_seq = 2, organizers_id_seq = 1, tags_id_seq = 3, events_id_seq = 3,
      audit_id_seq = 0\<rparr>"

definition admin_token :: jwt where
  "admin_token = \<lparr>verifies = True, payload = [''sub'' \<mapsto> PStr ''1'', ''role'' \<mapsto> PStr ''admin'']\<rparr>"

definition user_token :: jwt where
  "user_token = \<lparr>verifies = True, payload = [''sub'' \<mapsto> PStr ''2'', ''role'' \<mapsto> PStr ''user'']\<rparr>"

definition noon :: datetime where
  "noon = \<lparr>year = 2025, month = 1, day = 15, hour = 12, minute = 0, second = 0,
           microsecond = 0, utcoffset = None\<rparr>"

section \<open>Query/filter resolver\<close>

text \<open>
  What the listing handlers do with their query parameters: the truth value of a Python
  value, \<open>x.strip()\<close> (only a \<open>str\<close> has the method), and \<open>x == "literal"\<close>, which holds
  of no value but the equal \<open>str\<close>.
\<close>

fun py_truthy :: "pyval \<Rightarrow> bool" where
  "py_truthy PNone = False"
| "py_truthy (PBool b) = b"
| "py_truthy (PInt i) = (i \<noteq> 0)"
| "py_truthy (PStr s) = (s \<noteq> [])"
| "py_truthy (PDecimal neg c e) = (c \<noteq> 0)"
| "py_truthy (PDatetime d) = True"
| "py_truthy (PList xs) = (xs \<noteq> [])"

fun py_strip :: "pyval \<Rightarrow> error + pyval" where
  "py_strip (PStr s) = Inr (PStr (strip s))"
| "py_strip v = Inl AttributeError"

fun eq_str :: "pyval \<Rightarrow> string \<Rightarrow> bool" where
  "eq_str (PStr s) lit = (s = lit)"
| "eq_str v lit = False"

text \<open>The expression \<open>int(x) if x and x.strip() else None\<close>.\<close>

definition int_if_given :: "pyval \<Rightarrow> error + int option" where
  "int_if_given x =
     (if \<not> py_truthy x then Inr None
      else case py_strip x of
             Inl e \<Rightarrow> Inl e
           | Inr t \<Rightarrow>
               if py_truthy t
               then (case py_int x of Inl e \<Rightarrow> Inl e | Inr i \<Rightarrow> Inr (Some i))
               else Inr None)"

text \<open>The database's \<open>ILIKE\<close> on ASCII text: \<open>%\<close> stands for any run of characters, \<open>_\<close> for
  any one character, letters match without regard to case. Escape characters are left out.\<close>

definition lower :: "char \<Rightarrow> char" where
  "lower c = (let n = (of_char c :: nat) in if 65 \<le> n \<and> n \<le> 90 then char_of (n + 32) else c)"

fun ilike :: "string \<Rightarrow> string \<Rightarrow> bool" where
  "ilike [] [] = True"
| "ilike [] (p # ps) = (p = CHR ''%'' \<and> ilike [] ps)"
| "ilike (c # cs) [] = False"
| "ilike (c # cs) (p # ps) =
     (if p = CHR ''%'' then ilike (c # cs) ps \<or> ilike cs (p # ps)
      else (p = CHR ''_'' \<or> lower p = lower c) \<and> ilike cs ps)"

definition column_ilike :: "pyval \<Rightarrow> string \<Rightarrow> bool" where
  "column_ilike v pat = (case v of PStr t \<Rightarrow> ilike t pat | _ \<Rightarrow> False)"

definition where_search :: "string \<Rightarrow> Event list \<Rightarrow> Event list" where
  "where_search search rows =
     filter (\<lambda>e. column_ilike (title e) (''%'' @ search @ ''%'')
                \<or> column_ilike (description e) (''%'' @ search @ ''%'')) rows"

text \<open>\<open>query.join(EventTag, Event.id == EventTag.event_id).where(EventTag.tag_id == t)\<close>: one
  result row per matching pair.\<close>

definition join_tag :: "db \<Rightarrow> int \<Rightarrow> Event list \<Rightarrow> Event list" where
  "join_tag s t rows =
     concat (map (\<lambda>e. map (\<lambda>et. e)
                        (filter (\<lambda>et. event_id et = ev_id e \<and> tag_id et = t) (event_tags s)))
               rows)"

text \<open>
  \<open>GET /api/v1/events\<close>. The framework hands the handler its parameters with the declared
  types: \<open>city_id\<close> an int, \<open>is_online\<close> a bool, the others strings, each \<open>None\<close> when absent.
  The query has no \<open>ORDER BY\<close>; the rows come as the table holds them. The hydration of
  tags and image links on the result is not modelled.
\<close>

definition list_events ::
  "db \<Rightarrow> string option \<Rightarrow> int option \<Rightarrow> string option \<Rightarrow> bool option \<Rightarrow> string option
     \<Rightarrow> error + Event list" where
  "list_events s search city_id_q organizer_id_q is_online_q tag_id_q =
     (let search' = (case search of None \<Rightarrow> PNone | Some x \<Rightarrow> PStr x);
          city_id' = (case city_id_q of None \<Rightarrow> PNone | Some i \<Rightarrow> PInt i);
          organizer_id' = (case organizer_id_q of None \<Rightarrow> PNone | Some x \<Rightarrow> PStr x);
          is_online' = (case is_online_q of None \<Rightarrow> PNone | Some b \<Rightarrow> PBool b);
          tag_id' = (case tag_id_q of None \<Rightarrow> PNone | Some x \<Rightarrow> PStr x)
      in case int_if_given city_id' of
           Inl e \<Rightarrow> Inl e
         | Inr c \<Rightarrow>
        (case int_if_given organizer_id' of
           Inl e \<Rightarrow> Inl e
         | Inr organizer \<Rightarrow>
        (case int_if_given tag_id' of
           Inl e \<Rightarrow> Inl e
         | Inr tag \<Rightarrow>
        (let online = (if eq_str is_online' ''true'' then Some True
                       else if eq_str is_online' ''false'' then Some False else None);
             q0 = events s;
             q1 = (if py_truthy search' then where_search (py_str search') q0 else q0);
             q2 = (case c of None \<Rightarrow> q1 | Some i \<Rightarrow> filter (\<lambda>e. city_id e = PInt i) q1);
             q3 = (case organizer of None \<Rightarrow> q2 | Some i \<Rightarrow> filter (\<lambda>e. organizer_id e = PInt i) q2);
             q4 = (case online of None \<Rightarrow> q3 | Some b \<Rightarrow> filter (\<lambda>e. is_online e = PBool b) q3);
             q5 = (case tag of None \<Rightarrow> q4 | Some t \<Rightarrow> join_tag s t q4)
         in Inr q5))))"

text \<open>The chronological key of a stored timestamp, for \<open>ORDER BY\<close>.\<close>

definition timestamp_key :: "pyval \<Rightarrow> nat \<times> nat \<times> nat \<times> nat \<times> nat \<times> nat \<times> nat" where
  "timestamp_key v =
     (case v of
        PDatetime d \<Rightarrow> (year d, month d, day d, hour d, minute d, second d, microsecond d)
      | _ \<Rightarrow> (0, 0, 0, 0, 0, 0, 0))"

text \<open>
  \<open>GET /\<close>, the index page: the events handed to the template. The parameters are all
  declared \<open>Optional[str]\<close>. There is no city filter on this page.
\<close>

definition page_index ::
  "db \<Rightarrow> jwt option \<Rightarrow> string option \<Rightarrow> string option \<Rightarrow> string option \<Rightarrow> string option
     \<Rightarrow> error + Event list" where
  "page_index s cookie search is_online_q organizer_id_q tag_id_q =
     (case get_current_user_cookie s cookie of
        Inl e \<Rightarrow> Inl e
      | Inr user \<Rightarrow>
        (case int_if_given (case organizer_id_q of None \<Rightarrow> PNone | Some x \<Rightarrow> PStr x) of
           Inl e \<Rightarrow> Inl e
         | Inr organizer \<Rightarrow>
        (case int_if_given (case tag_id_q of None \<Rightarrow> PNone | Some x \<Rightarrow> PStr x) of
           Inl e \<Rightarrow> Inl e
         | Inr tag \<Rightarrow>
        (let q0 = events s;
             q1 = (case search of None \<Rightarrow> q0
                   | Some x \<Rightarrow> if x \<noteq> [] then where_search x q0 else q0);
             q2 = (if is_online_q = Some ''true'' then filter (\<lambda>e. is_online e = PBool True) q1
                   else if is_online_q = Some ''false'' then filter (\<lambda>e. is_online e = PBool False) q1
                   else q1);
             q3 = (case organizer of None \<Rightarrow> q2
                   | Some i \<Rightarrow> if i \<noteq> 0 then filter (\<lambda>e. organizer_id e = PInt i) q2 else q2);
             q4 = (case tag of None \<Rightarrow> q3
                   | Some t \<Rightarrow> if t \<noteq> 0 then join_tag s t q3 else q3)
         in Inr (sort_key (\<lambda>e. timestamp_key (date_start e)) q4)))))"


section \<open>Event creation, edit and deletion\<close>

text \<open>
  The form fields the two creation handlers and the browser edit handler share, with the
  types the handlers declare. An uploaded file is seen through what the handlers read of
  it; whether object storage takes the upload, and the name it is stored under, are given
  with it, object storage being outside the database.
\<close>

record event_form =
  form_title :: string
  form_organizer_id :: int
  form_date_start :: datetime
  form_date_end :: "datetime option"
  form_registration_deadline :: "datetime option"
  form_price :: "bool \<times> nat \<times> int"
  form_city_id :: "int option"
  form_location_address :: "string option"
  form_website_url :: "string option"
  form_description :: "string option"

record upload =
  content_type :: string
  filename :: string
  has_contents :: bool
  storage_accepts :: bool
  uuid4 :: string

definition ALLOWED :: "string \<rightharpoonup> string" where
  "ALLOWED = [''image/jpeg'' \<mapsto> ''jpg'', ''image/png'' \<mapsto> ''png'', ''image/webp'' \<mapsto> ''webp'']"

definition str_or_none :: "string option \<Rightarrow> pyval" where
  "str_or_none x = (case x of None \<Rightarrow> PNone | Some v \<Rightarrow> PStr v)"

definition int_or_none :: "int option \<Rightarrow> pyval" where
  "int_or_none x = (case x of None \<Rightarrow> PNone | Some v \<Rightarrow> PInt v)"

definition datetime_or_none :: "datetime option \<Rightarrow> pyval" where
  "datetime_or_none x = (case x of None \<Rightarrow> PNone | Some v \<Rightarrow> PDatetime v)"

definition decimal :: "bool \<times> nat \<times> int \<Rightarrow> pyval" where
  "decimal d = (case d of (neg, c, e) \<Rightarrow> PDecimal neg c e)"

text \<open>
  The \<open>Event(...)\<close> a creation handler builds, as the flush inserts it: the sequence gives
  the key, the server default \<open>func.now()\<close> the creation time, and \<open>updated_at\<close>, which no
  creation handler assigns and whose \<open>onupdate\<close> does not fire on an insert, stays null.
\<close>

definition new_event :: "datetime \<Rightarrow> db \<Rightarrow> event_form \<Rightarrow> pyval \<Rightarrow> pyval \<Rightarrow> pyval \<Rightarrow> Event" where
  "new_event now s f city online key =
     \<lparr>ev_id = events_id_seq s + 1,
      title = PStr (form_title f),
      organizer_id = PInt (form_organizer_id f),
      date_start = PDatetime (form_date_start f),
      description = str_or_none (form_description f),
      image_url = key,
      website_url = str_or_none (form_website_url f),
      price = decimal (form_price f),
      date_end = datetime_or_none (form_date_end f),
      registration_deadline = datetime_or_none (form_registration_deadline f),
      city_id = city,
      location_address = str_or_none (form_location_address f),
      is_online = online,
      created_at = PDatetime now,
      updated_at = PNone\<rparr>"

definition insert_event :: "Event \<Rightarrow> int list \<Rightarrow> db \<Rightarrow> db" where
  "insert_event ev tids s =
     s\<lparr>events := events s @ [ev],
       event_tags := event_tags s @ map (\<lambda>tid. \<lparr>event_id = ev_id ev, tag_id = tid\<rparr>) tids,
       events_id_seq := ev_id ev\<rparr>"

text \<open>\<open>s.split(",")\<close>, and \<open>[int(t.strip()) for t in tag_ids.split(",") if t.strip().isdigit()]\<close>
  on ASCII text.\<close>

fun split_comma :: "string \<Rightarrow> string list" where
  "split_comma [] = [[]]"
| "split_comma (c # cs) =
     (if c = CHR '','' then [] # split_comma cs
      else case split_comma cs of [] \<Rightarrow> [[c]] | w # ws \<Rightarrow> (c # w) # ws)"

definition isdigit :: "string \<Rightarrow> bool" where
  "isdigit t = (t \<noteq> [] \<and> list_all is_digit t)"

definition parse_tag_ids :: "string \<Rightarrow> int list" where
  "parse_tag_ids tag_ids_str =
     List.map_filter (\<lambda>t. if isdigit (strip t) then int_of_str (strip t) else None)
       (split_comma tag_ids_str)"

text \<open>
  \<open>POST /api/v1/event\<close>. An image of a type that is not allowed is refused with 415 and a
  failed upload with 500, both before anything is added to the session. A failure of the
  flush or the commit is answered 400 when the message names a foreign key, 500 otherwise.
\<close>

definition create_event ::
  "datetime \<Rightarrow> db \<Rightarrow> jwt option \<Rightarrow> event_form \<Rightarrow> bool \<Rightarrow> string option \<Rightarrow> upload option
     \<Rightarrow> error + db" where
  "create_event now s token f online tag_ids_str image_file =
     (case require_admin s token of
        Inl e \<Rightarrow> Inl e
      | Inr admin \<Rightarrow>
          (case (case image_file of
                   None \<Rightarrow> Inr PNone
                 | Some img \<Rightarrow>
                     (case ALLOWED (content_type img) of
                        None \<Rightarrow> Inl (HTTPException 415)
                      | Some ext \<Rightarrow>
                          if storage_accepts img
                          then Inr (PStr (''uploads/'' @ uuid4 img @ ''.'' @ ext))
                          else Inl (HTTPException 500))) of
             Inl e \<Rightarrow> Inl e
           | Inr key \<Rightarrow>
               (let event = new_event now s f (int_or_none (form_city_id f)) (PBool online) key;
                    parsed_ids = (case tag_ids_str of
                                    None \<Rightarrow> []
                                  | Some x \<Rightarrow> if x \<noteq> [] then parse_tag_ids x else [])
                in case commit (insert_event event parsed_ids s) of
                     Inl (IntegrityError v) \<Rightarrow>
                       Inl (HTTPException (if v = ForeignKeyViolation then 400 else 500))
                   | Inl e \<Rightarrow> Inl (HTTPException 500)
                   | Inr s' \<Rightarrow> Inr s')))"

text \<open>
  \<open>POST /admin/events/new\<close>. The type of the image is checked only when it has a file name
  (the page is then shown again with status 400); \<open>image.read()\<close> is called whether or not
  an image came with the form; a failed upload is logged and the event is stored without
  image. \<open>city_id or None\<close> turns city 0 into no city.
\<close>

definition do_admin_event_create ::
  "datetime \<Rightarrow> db \<Rightarrow> jwt option \<Rightarrow> event_form \<Rightarrow> string option \<Rightarrow> int list \<Rightarrow> upload option
     \<Rightarrow> error + db" where
  "do_admin_event_create now s cookie f online tids image_file =
     (case admin_from_cookie s cookie of
        Inl e \<Rightarrow> Inl e
      | Inr user \<Rightarrow>
          (case image_file of
             None \<Rightarrow> Inl AttributeError
           | Some img \<Rightarrow>
               if filename img \<noteq> [] \<and> ALLOWED (content_type img) = None
               then Inl (HTTPException 400)
               else
                 (case (if has_contents img
                        then (case ALLOWED (content_type img) of
                                None \<Rightarrow> Inl KeyError
                              | Some ext \<Rightarrow>
                                  Inr (if storage_accepts img
                                       then PStr (''uploads/'' @ uuid4 img @ ''.'' @ ext)
                                       else PNone))
                        else Inr PNone) of
                    Inl e \<Rightarrow> Inl e
                  | Inr key \<Rightarrow>
                      (let city = (case form_city_id f of
                                     None \<Rightarrow> PNone
                                   | Some c \<Rightarrow> if c \<noteq> 0 then PInt c else PNone);
                           event = new_event now s f city (PBool (online = Some ''true'')) key
                       in commit (insert_event event tids s)))))"

text \<open>
  \<open>POST /admin/events/{event_id}/edit\<close>. The \<open>updates\<close> dict holds every form field, in the
  order the handler writes them; the same diff loop runs over it. The tag rows of the event
  are deleted and the submitted ids inserted whatever the form carried, \<open>tag_ids\<close> being an
  empty list when the form has none. The clock is read with \<open>datetime.now(timezone.utc)\<close>.
\<close>

definition form_updates :: "event_form \<Rightarrow> string option \<Rightarrow> (string \<times> pyval) list" where
  "form_updates f online =
     [(''title'', PStr (form_title f)),
      (''organizer_id'', PInt (form_organizer_id f)),
      (''date_start'', PDatetime (form_date_start f)),
      (''date_end'', datetime_or_none (form_date_end f)),
      (''registration_deadline'', datetime_or_none (form_registration_deadline f)),
      (''price'', decimal (form_price f)),
      (''city_id'', (case form_city_id f of
                       None \<Rightarrow> PNone
                     | Some c \<Rightarrow> if c \<noteq> 0 then PInt c else PNone)),
      (''location_address'', str_or_none (form_location_address f)),
      (''website_url'', str_or_none (form_website_url f)),
      (''description'', str_or_none (form_description f)),
      (''is_online'', PBool (online = Some ''true''))]"

definition do_admin_event_edit ::
  "datetime \<Rightarrow> db \<Rightarrow> jwt option \<Rightarrow> int \<Rightarrow> event_form \<Rightarrow> string option \<Rightarrow> int list \<Rightarrow> upload option
     \<Rightarrow> error + db" where
  "do_admin_event_edit now s cookie eid f online tids image_file =
     (case admin_from_cookie s cookie of
        Inl e \<Rightarrow> Inl e
      | Inr user \<Rightarrow>
          (case get_event s eid of
             None \<Rightarrow> Inl (HTTPException 404)
           | Some event \<Rightarrow>
               (let (event1, added) = audit_loop eid (user_pk user) (form_updates f online) event [];
                    event2 = (case image_file of
                                None \<Rightarrow> event1
                              | Some img \<Rightarrow>
                                  (case ALLOWED (content_type img) of
                                     None \<Rightarrow> event1
                                   | Some ext \<Rightarrow>
                                       if filename img \<noteq> [] \<and> has_contents img \<and> storage_accepts img
                                       then event1\<lparr>image_url := PStr (''uploads/'' @ uuid4 img @ ''.'' @ ext)\<rparr>
                                       else event1));
                    s1 = replace_tags eid tids s;
                    event3 = event2\<lparr>updated_at := PDatetime (now\<lparr>utcoffset := Some 0\<rparr>)\<rparr>
                in commit (insert_audit_rows now added (replace_event event3 s1)))))"

text \<open>\<open>db.delete(event)\<close>: the relationships of \<open>Event\<close> cascade to its tag rows, bookmarks
  and audit rows. The removal of the stored image is outside the database.\<close>

definition delete_event_rows :: "int \<Rightarrow> db \<Rightarrow> db" where
  "delete_event_rows eid s =
     s\<lparr>events := filter (\<lambda>e. ev_id e \<noteq> eid) (events s),
       event_tags := filter (\<lambda>et. event_id et \<noteq> eid) (event_tags s),
       bookmarks := filter (\<lambda>b. bm_event_id b \<noteq> eid) (bookmarks s),
       audit_log := filter (\<lambda>r. log_event_id r \<noteq> eid) (audit_log s)\<rparr>"

definition delete_event :: "db \<Rightarrow> jwt option \<Rightarrow> int \<Rightarrow> error + db" where
  "delete_event s token eid =
     (case require_admin s token of
        Inl e \<Rightarrow> Inl e
      | Inr admin \<Rightarrow>
          (case get_event s eid of
             None \<Rightarrow> Inl (HTTPException 404)
           | Some event \<Rightarrow> commit (delete_event_rows eid s)))"

definition do_admin_event_delete :: "db \<Rightarrow> jwt option \<Rightarrow> int \<Rightarrow> error + db" where
  "do_admin_event_delete s cookie eid =
     (case admin_from_cookie s cookie of
        Inl e \<Rightarrow> Inl e
      | Inr user \<Rightarrow>
          (case get_event s eid of
             None \<Rightarrow> Inr s
           | Some event \<Rightarrow> commit (delete_event_rows eid s)))"

section \<open>Tags, organizers, bookmarks and registration\<close>

definition insert_tag :: "string \<Rightarrow> db \<Rightarrow> db" where
  "insert_tag name s =
     s\<lparr>tags := tags s @ [\<lparr>tag_pk = tags_id_seq s + 1, tag_name = name\<rparr>],
       tags_id_seq := tags_id_seq s + 1\<rparr>"

definition create_tag :: "db \<Rightarrow> jwt option \<Rightarrow> string \<Rightarrow> error + db" where
  "create_tag s token name =
     (case require_admin s token of
        Inl e \<Rightarrow> Inl e
      | Inr admin \<Rightarrow> commit (insert_tag name s))"

text \<open>
  \<open>db.delete(tag)\<close>. The relationship \<open>Tag.event_tags\<close> declares no cascade, so the unit of
  work would detach the tag's association rows by nulling their \<open>tag_id\<close>; that column is
  part of their primary key, and the flush stops with an \<open>AssertionError\<close>. A tag without
  associations is deleted.
\<close>

definition delete_tag_row :: "int \<Rightarrow> db \<Rightarrow> error + db" where
  "delete_tag_row tid s =
     (if \<exists>et \<in> set (event_tags s). tag_id et = tid then Inl AssertionError
      else commit (s\<lparr>tags := filter (\<lambda>t. tag_pk t \<noteq> tid) (tags s)\<rparr>))"

definition delete_tag :: "db \<Rightarrow> jwt option \<Rightarrow> int \<Rightarrow> error + db" where
  "delete_tag s token tid =
     (case require_admin s token of
        Inl e \<Rightarrow> Inl e
      | Inr admin \<Rightarrow>
          (case get_tag s tid of
             None \<Rightarrow> Inl (HTTPException 404)
           | Some tag \<Rightarrow> delete_tag_row tid s))"

text \<open>The page handlers answer a name in use by showing the page again with status 400.\<close>

definition do_admin_tag_create :: "db \<Rightarrow> jwt option \<Rightarrow> string \<Rightarrow> error + db" where
  "do_admin_tag_create s cookie name =
     (case admin_from_cookie s cookie of
        Inl e \<Rightarrow> Inl e
      | Inr user \<Rightarrow>
          if \<exists>t \<in> set (tags s). tag_name t = name then Inl (HTTPException 400)
          else commit (insert_tag name s))"

definition do_admin_tag_delete :: "db \<Rightarrow> jwt option \<Rightarrow> int \<Rightarrow> error + db" where
  "do_admin_tag_delete s cookie tid =
     (case admin_from_cookie s cookie of
        Inl e \<Rightarrow> Inl e
      | Inr user \<Rightarrow>
          (case get_tag s tid of
             None \<Rightarrow> Inr s
           | Some tag \<Rightarrow> delete_tag_row tid s))"

record OrganizerCreate =
  oc_name :: string
  oc_website :: "string option"
  oc_contact_email :: "string option"
  oc_description :: "string option"

definition insert_organizer :: "OrganizerCreate \<Rightarrow> db \<Rightarrow> db" where
  "insert_organizer p s =
     s\<lparr>organizers := organizers s
          @ [\<lparr>organizer_pk = organizers_id_seq s + 1, organizer_name = oc_name p,
               website = oc_website p, contact_email = oc_contact_email p,
               organizer_description = oc_description p\<rparr>],
       organizers_id_seq := organizers_id_seq s + 1\<rparr>"

definition create_organizer :: "db \<Rightarrow> jwt option \<Rightarrow> OrganizerCreate \<Rightarrow> error + db" where
  "create_organizer s token p =
     (case require_admin s token of
        Inl e \<Rightarrow> Inl e
      | Inr admin \<Rightarrow> commit (insert_organizer p s))"

text \<open>\<open>x or None\<close> on an optional form string: the empty string becomes \<open>None\<close>.\<close>

definition or_none :: "string option \<Rightarrow> string option" where
  "or_none x = (case x of None \<Rightarrow> None | Some v \<Rightarrow> if v = [] then None else Some v)"

definition do_admin_organizer_create :: "db \<Rightarrow> jwt option \<Rightarrow> OrganizerCreate \<Rightarrow> error + db" where
  "do_admin_organizer_create s cookie p =
     (case admin_from_cookie s cookie of
        Inl e \<Rightarrow> Inl e
      | Inr user \<Rightarrow>
          if \<exists>org \<in> set (organizers s). organizer_name org = oc_name p then Inl (HTTPException 400)
          else commit (insert_organizer
                         (p\<lparr>oc_website := or_none (oc_website p),
                            oc_contact_email := or_none (oc_contact_email p),
                            oc_description := or_none (oc_description p)\<rparr>) s))"

text \<open>\<open>src/routers/bookmark_route.py\<close>: any authenticated user, on the user's own
  bookmarks.\<close>

definition find_bookmark :: "db \<Rightarrow> int \<Rightarrow> int \<Rightarrow> Bookmark option" where
  "find_bookmark s uid eid = find (\<lambda>b. bm_user_id b = uid \<and> bm_event_id b = eid) (bookmarks s)"

definition insert_bookmark :: "datetime \<Rightarrow> int \<Rightarrow> int \<Rightarrow> db \<Rightarrow> db" where
  "insert_bookmark now uid eid s =
     s\<lparr>bookmarks := bookmarks s @ [\<lparr>bm_user_id = uid, bm_event_id = eid, added_at = now\<rparr>]\<rparr>"

definition delete_bookmark :: "int \<Rightarrow> int \<Rightarrow> db \<Rightarrow> db" where
  "delete_bookmark uid eid s =
     s\<lparr>bookmarks := filter (\<lambda>b. \<not> (bm_user_id b = uid \<and> bm_event_id b = eid)) (bookmarks s)\<rparr>"

definition add_bookmark :: "datetime \<Rightarrow> db \<Rightarrow> jwt option \<Rightarrow> int \<Rightarrow> error + db" where
  "add_bookmark now s token eid =
     (case get_current_user s token of
        Inl e \<Rightarrow> Inl e
      | Inr current_user \<Rightarrow>
          (case get_event s eid of
             None \<Rightarrow> Inl (HTTPException 404)
           | Some event \<Rightarrow>
               (case find_bookmark s (user_pk current_user) eid of
                  Some existing \<Rightarrow> Inl (HTTPException 409)
                | None \<Rightarrow> commit (insert_bookmark now (user_pk current_user) eid s))))"

definition remove_bookmark :: "db \<Rightarrow> jwt option \<Rightarrow> int \<Rightarrow> error + db" where
  "remove_bookmark s token eid =
     (case get_current_user s token of
        Inl e \<Rightarrow> Inl e
      | Inr current_user \<Rightarrow>
          (case find_bookmark s (user_pk current_user) eid of
             None \<Rightarrow> Inl (HTTPException 404)
           | Some bm \<Rightarrow> commit (delete_bookmark (user_pk current_user) eid s)))"

text \<open>The page handlers of the bookmarks send an anonymous visitor to the login page and
  do nothing when there is nothing to do.\<close>

definition page_add_bookmark :: "datetime \<Rightarrow> db \<Rightarrow> jwt option \<Rightarrow> int \<Rightarrow> error + db" where
  "page_add_bookmark now s cookie eid =
     (case get_current_user_cookie s cookie of
        Inl e \<Rightarrow> Inl e
      | Inr None \<Rightarrow> Inr s
      | Inr (Some user) \<Rightarrow>
          (case find_bookmark s (user_pk user) eid of
             Some existing \<Rightarrow> Inr s
           | None \<Rightarrow> commit (insert_bookmark now (user_pk user) eid s)))"

definition page_remove_bookmark :: "db \<Rightarrow> jwt option \<Rightarrow> int \<Rightarrow> error + db" where
  "page_remove_bookmark s cookie eid =
     (case get_current_user_cookie s cookie of
        Inl e \<Rightarrow> Inl e
      | Inr None \<Rightarrow> Inr s
      | Inr (Some user) \<Rightarrow>
          (case find_bookmark s (user_pk user) eid of
             None \<Rightarrow> Inr s
           | Some bm \<Rightarrow> commit (delete_bookmark (user_pk user) eid s)))"

text \<open>\<open>POST /register\<close>: the role is fixed to \<open>"user"\<close>. The hash of the password is taken as
  given.\<close>

definition do_register :: "db \<Rightarrow> string \<Rightarrow> string \<Rightarrow> error + db" where
  "do_register s mail hashed =
     (if \<exists>u \<in> set (users s). email u = mail then Inl (HTTPException 400)
      else commit (s\<lparr>users := users s
                         @ [\<lparr>user_pk = users_id_seq s + 1, email = mail, password_hash = hashed,
                              role = ''user''\<rparr>],
                      users_id_seq := users_id_seq s + 1\<rparr>))"

section \<open>Requests\<close>

text \<open>
  The mutating endpoints of the routers under \<open>src/routers\<close>, each with the credentials and
  the parameters it receives. The first twelve depend on \<open>require_admin\<close> or start with
  \<open>_require_admin(user)\<close>.
\<close>

datatype request =
    CreateEvent "jwt option" event_form bool "string option" "upload option"
  | UpdateEvent "jwt option" int EventUpdate
  | DeleteEvent "jwt option" int
  | CreateTag "jwt option" string
  | DeleteTag "jwt option" int
  | CreateOrganizer "jwt option" OrganizerCreate
  | PageEventCreate "jwt option" event_form "string option" "int list" "upload option"
  | PageEventEdit "jwt option" int event_form "string option" "int list" "upload option"
  | PageEventDelete "jwt option" int
  | PageTagCreate "jwt option" string
  | PageTagDelete "jwt option" int
  | PageOrganizerCreate "jwt option" OrganizerCreate
  | AddBookmark "jwt option" int
  | RemoveBookmark "jwt option" int
  | PageAddBookmark "jwt option" int
  | PageRemoveBookmark "jwt option" int
  | Register string string

fun handle :: "datetime \<Rightarrow> db \<Rightarrow> request \<Rightarrow> error + db" where
  "handle now s (CreateEvent token f online tag_ids_str img) = create_event now s token f online tag_ids_str img"
| "handle now s (UpdateEvent token eid p) = update_event now s token eid p"
| "handle now s (DeleteEvent token eid) = delete_event s token eid"
| "handle now s (CreateTag token name) = create_tag s token name"
| "handle now s (DeleteTag token tid) = delete_tag s token tid"
| "handle now s (CreateOrganizer token p) = create_organizer s token p"
| "handle now s (PageEventCreate cookie f online tids img) = do_admin_event_create now s cookie f online tids img"
| "handle now s (PageEventEdit cookie eid f online tids img) = do_admin_event_edit now s cookie eid f online tids img"
| "handle now s (PageEventDelete cookie eid) = do_admin_event_delete s cookie eid"
| "handle now s (PageTagCreate cookie name) = do_admin_tag_create s cookie name"
| "handle now s (PageTagDelete cookie tid) = do_admin_tag_delete s cookie tid"
| "handle now s (PageOrganizerCreate cookie p) = do_admin_organizer_create s cookie p"
| "handle now s (AddBookmark token eid) = add_bookmark now s token eid"
| "handle now s (RemoveBookmark token eid) = remove_bookmark s token eid"
| "handle now s (PageAddBookmark cookie eid) = page_add_bookmark now s cookie eid"
| "handle now s (PageRemoveBookmark cookie eid) = page_remove_bookmark s cookie eid"
| "handle now s (Register mail hashed) = do_register s mail hashed"

fun admin_only :: "request \<Rightarrow> bool" where
  "admin_only (AddBookmark token eid) = False"
| "admin_only (RemoveBookmark token eid) = False"
| "admin_only (PageAddBookmark cookie eid) = False"
| "admin_only (PageRemoveBookmark cookie eid) = False"
| "admin_only (Register mail hashed) = False"
| "admin_only r = True"

fun credentials :: "request \<Rightarrow> jwt option" where
  "credentials (CreateEvent token f online tag_ids_str img) = token"
| "credentials (UpdateEvent token eid p) = token"
| "credentials (DeleteEvent token eid) = token"
| "credentials (CreateTag token name) = token"
| "credentials (DeleteTag token tid) = token"
| "credentials (CreateOrganizer token p) = token"
| "credentials (PageEventCreate cookie f online tids img) = cookie"
| "credentials (PageEventEdit cookie eid f online tids img) = cookie"
| "credentials (PageEventDelete cookie eid) = cookie"
| "credentials (PageTagCreate cookie name) = cookie"
| "credentials (PageTagDelete cookie tid) = cookie"
| "credentials (PageOrganizerCreate cookie p) = cookie"
| "credentials (AddBookmark token eid) = token"
| "credentials (RemoveBookmark token eid) = token"
| "credentials (PageAddBookmark cookie eid) = cookie"
| "credentials (PageRemoveBookmark cookie eid) = cookie"
| "credentials (Register mail hashed) = None"

text \<open>The event an update request is aimed at.\<close>

fun updates_event :: "request \<Rightarrow> int option" where
  "updates_event (UpdateEvent token eid p) = Some eid"
| "updates_event (PageEventEdit cookie eid f online tids img) = Some eid"
| "updates_event r = None"

text \<open>
  The caller behind a credential: the user the subject of a verifying token names, if the
  database holds that user.
\<close>

definition token_user :: "db \<Rightarrow> jwt option \<Rightarrow> User option" where
  "token_user s token =
     (case token of
        None \<Rightarrow> None
      | Some t \<Rightarrow>
          if \<not> verifies t then None
          else case payload t ''sub'' of
                 Some (PStr x) \<Rightarrow> (case int_of_str x of None \<Rightarrow> None | Some uid \<Rightarrow> get_user s uid)
               | _ \<Rightarrow> None)"

definition forged_token :: jwt where
  "forged_token = \<lparr>verifies = True, payload = [''sub'' \<mapsto> PStr ''2'', ''role'' \<mapsto> PStr ''admin'']\<rparr>"

text \<open>The same request under another credential.\<close>

fun with_credentials :: "request \<Rightarrow> jwt option \<Rightarrow> request" where
  "with_credentials (CreateEvent token f online tag_ids_str img) c = CreateEvent c f online tag_ids_str img"
| "with_credentials (UpdateEvent token eid p) c = UpdateEvent c eid p"
| "with_credentials (DeleteEvent token eid) c = DeleteEvent c eid"
| "with_credentials (CreateTag token name) c = CreateTag c name"
| "with_credentials (DeleteTag token tid) c = DeleteTag c tid"
| "with_credentials (CreateOrganizer token p) c = CreateOrganizer c p"
| "with_credentials (PageEventCreate cookie f online tids img) c = PageEventCreate c f online tids img"
| "with_credentials (PageEventEdit cookie eid f online tids img) c = PageEventEdit c eid f online tids img"
| "with_credentials (PageEventDelete cookie eid) c = PageEventDelete c eid"
| "with_credentials (PageTagCreate cookie name) c = PageTagCreate c name"
| "with_credentials (PageTagDelete cookie tid) c = PageTagDelete c tid"
| "with_credentials (PageOrganizerCreate cookie p) c = PageOrganizerCreate c p"
| "with_credentials (AddBookmark token eid) c = AddBookmark c eid"
| "with_credentials (RemoveBookmark token eid) c = RemoveBookmark c eid"
| "with_credentials (PageAddBookmark cookie eid) c = PageAddBookmark c eid"
| "with_credentials (PageRemoveBookmark cookie eid) c = PageRemoveBookmark c eid"
| "with_credentials (Register mail hashed) c = Register mail hashed"

text \<open>The event as the browser edit leaves it in the session: every form field assigned, the
  key of the image when an upload went through, and the time of the update.\<close>

definition edited_event :: "datetime \<Rightarrow> Event \<Rightarrow> event_form \<Rightarrow> string option \<Rightarrow> upload option \<Rightarrow> Event" where
  "edited_event now event f online image_file =
     (let event1 = foldl (\<lambda>e fv. setattr e (fst fv) (snd fv)) event (form_updates f online);
          event2 = (case image_file of
                      None \<Rightarrow> event1
                    | Some img \<Rightarrow>
                        (case ALLOWED (content_type img) of
                           None \<Rightarrow> event1
                         | Some ext \<Rightarrow>
                             if filename img \<noteq> [] \<and> has_contents img \<and> storage_accepts img
                             then event1\<lparr>image_url := PStr (''uploads/'' @ uuid4 img @ ''.'' @ ext)\<rparr>
                             else event1))
      in event2\<lparr>updated_at := PDatetime (now\<lparr>utcoffset := Some 0\<rparr>)\<rparr>)"

text \<open>The edit form of event A as the page shows it, nothing changed.\<close>

definition form_A :: event_form where
  "form_A = \<lparr>form_title = ''A'', form_organizer_id = 1, form_date_start = midnight 2025 3 1,
              form_date_end = None, form_registration_deadline = None,
              form_price = (False, 1000, - 2), form_city_id = Some 1,
              form_location_address = None, form_website_url = None, form_description = None\<rparr>"


section \<open>The bookmark listings\<close>






section \<open>Attribute access\<close>

lemma column_of_Some: "column_of f = Some c \<Longrightarrow> column_name c = f"
  unfolding column_of_def by (auto simp: find_Some_iff)

lemma column_of_name: "column_of (column_name c) = Some c"
  by (cases c) (simp_all add: column_of_def columns_def)

lemma get_set_column:
  "get_column (set_column ev b v) a = (if a = b then v else get_column ev a)"
  by (cases a; cases b) simp_all

lemma ev_id_set_column: "ev_id (set_column ev b v) = ev_id ev"
  by (cases b) simp_all

lemma ev_id_setattr: "ev_id (setattr ev f v) = ev_id ev"
  by (simp add: setattr_def ev_id_set_column split: option.splits)

lemma getattr_setattr_other:
  "f \<noteq> g \<Longrightarrow> getattr (setattr ev g v) f d = getattr ev f d"
  by (auto simp: getattr_def setattr_def get_set_column ev_id_set_column
           split: option.splits dest: column_of_Some)


section \<open>The audit diff\<close>

lemma audit_loop_char:
  "distinct (map fst upd) \<Longrightarrow>
   audit_loop eid uid upd ev added =
     (foldl (\<lambda>e fv. setattr e (fst fv) (snd fv)) ev upd,
      added @ map (pending_row eid uid ev) (filter (differs ev) upd))"
proof (induction upd arbitrary: ev added)
  case Nil
  then show ?case by simp
next
  case (Cons a upd)
  obtain f v where a: "a = (f, v)" by (cases a)
  from Cons.prems a have nf: "\<And>g w. (g, w) \<in> set upd \<Longrightarrow> g \<noteq> f" and d: "distinct (map fst upd)"
    by (auto simp: image_iff)
  have same: "\<And>fv. fv \<in> set upd \<Longrightarrow> getattr (setattr ev f v) (fst fv) PNone = getattr ev (fst fv) PNone"
    using nf by (metis getattr_setattr_other prod.collapse)
  have flt: "filter (differs (setattr ev f v)) upd = filter (differs ev) upd"
    by (rule filter_cong) (simp_all add: differs_def same)
  have mp: "map (pending_row eid uid (setattr ev f v)) (filter (differs ev) upd)
          = map (pending_row eid uid ev) (filter (differs ev) upd)"
    by (rule map_cong) (simp_all add: pending_row_def same)
  have IH: "audit_loop eid uid upd (setattr ev f v) acc =
     (foldl (\<lambda>e fv. setattr e (fst fv) (snd fv)) (setattr ev f v) upd,
      acc @ map (pending_row eid uid ev) (filter (differs ev) upd))" for acc
    using Cons.IH[OF d, of "setattr ev f v" acc] by (simp only: flt mp)
  have hd1: "differs ev (f, v) = (py_str (getattr ev f PNone) \<noteq> py_str v)"
    by (simp add: differs_def)
  have hd2: "pending_row eid uid ev (f, v) =
     \<lparr>log_pk = None, log_event_id = eid, changed_by = Some uid, changed_column = f,
      old_value = Some (py_str (getattr ev f PNone)), new_value = Some (py_str v),
      change_date = None\<rparr>"
    by (simp add: pending_row_def)
  show ?case
    unfolding a by (simp add: Let_def IH hd1 hd2)
qed

lemma model_dump_eq:
  "model_dump p = map (\<lambda>f. (f, the (fields_set p f)))
     (filter (\<lambda>f. fields_set p f \<noteq> None) (filter (\<lambda>f. f \<noteq> ''tag_ids'') EventUpdate_fields))"
  by (auto simp: model_dump_def map_filter_def comp_def)

lemma model_dump_keys:
  "map fst (model_dump p) =
     filter (\<lambda>f. fields_set p f \<noteq> None) (filter (\<lambda>f. f \<noteq> ''tag_ids'') EventUpdate_fields)"
  by (simp add: model_dump_eq comp_def)

lemma model_dump_set:
  "set (model_dump p) = {(f, v). f \<in> set EventUpdate_fields \<and> f \<noteq> ''tag_ids'' \<and> fields_set p f = Some v}"
  by (auto simp: model_dump_eq)

lemma distinct_EventUpdate_fields: "distinct EventUpdate_fields"
  by (simp add: EventUpdate_fields_def)

lemma model_dump_distinct: "distinct (map fst (model_dump p))"
  by (simp add: model_dump_keys distinct_EventUpdate_fields)

lemma audit_log_insert_audit_rows:
  "new_audit_rows s0 (insert_audit_rows now rows s) =
     drop (length (audit_log s0)) (audit_log s) @
     drop (length (audit_log s0) - length (audit_log s))
       (map (\<lambda>(k, r). r\<lparr>log_pk := Some (audit_id_seq s + 1 + int k), change_date := Some now\<rparr>)
          (enumerate 0 rows))"
  by (simp add: new_audit_rows_def insert_audit_rows_def)

lemma stamped_rows_proj:
  "map ((\<lambda>r. (changed_column r, old_value r, new_value r))
          \<circ> (\<lambda>(k, r). r\<lparr>log_pk := g k, change_date := d\<rparr>)) (enumerate n rows)
   = map (\<lambda>r. (changed_column r, old_value r, new_value r)) rows"
  by (induction rows arbitrary: n) simp_all

lemma audit_log_replace_event [simp]: "audit_log (replace_event ev s) = audit_log s"
  by (simp add: replace_event_def)

lemma audit_log_replace_tags [simp]: "audit_log (replace_tags eid tids s) = audit_log s"
  by (simp add: replace_tags_def)

lemma update_event_Inr:
  assumes "require_admin s token = Inr admin" and "get_event s eid = Some event"
    and "update_event now s token eid p = Inr s'"
  shows "s' = insert_audit_rows now (snd (audit_loop eid (user_pk admin) (model_dump p) event []))
           (replace_event ((fst (audit_loop eid (user_pk admin) (model_dump p) event []))
                             \<lparr>updated_at := PDatetime (now\<lparr>utcoffset := None\<rparr>)\<rparr>)
              (case tag_ids p of None \<Rightarrow> s | Some tids \<Rightarrow> replace_tags eid tids s))"
    and "integrity_ok s'"
  using assms
  by (auto simp: update_event_def commit_def integrity_ok_def first_violation_def Let_def split_beta
           split: if_splits option.splits)

lemma update_event_new_rows:
  assumes "require_admin s token = Inr admin" and "get_event s eid = Some event"
    and "update_event now s token eid p = Inr s'"
  shows "map (\<lambda>r. (changed_column r, old_value r, new_value r)) (new_audit_rows s s')
       = map (\<lambda>r. (changed_column r, old_value r, new_value r))
           (snd (audit_loop eid (user_pk admin) (model_dump p) event []))"
proof -
  let ?s1 = "case tag_ids p of None \<Rightarrow> s | Some tids \<Rightarrow> replace_tags eid tids s"
  have al: "audit_log ?s1 = audit_log s"
    by (simp split: option.splits)
  show ?thesis
    unfolding update_event_Inr(1)[OF assms]
    by (simp add: audit_log_insert_audit_rows al stamped_rows_proj)
qed

lemma pending_rows:
  "snd (audit_loop eid uid (model_dump p) event []) =
     map (pending_row eid uid event) (filter (differs event) (model_dump p))"
  by (simp add: audit_loop_char[OF model_dump_distinct])

lemma rows_of_dump_gen:
  "map (\<lambda>r. (changed_column r, old_value r, new_value r))
     (map (pending_row eid uid ev)
        (filter (differs ev)
           (map (\<lambda>f. (f, the (m f))) (filter (\<lambda>f. m f \<noteq> None) (filter (\<lambda>f. f \<noteq> ''tag_ids'') xs)))))
   = map (\<lambda>f. (f, Some (py_str (getattr ev f PNone)), Some (py_str (the (m f)))))
       (filter (\<lambda>f. f \<noteq> ''tag_ids'' \<and>
                  (case m f of None \<Rightarrow> False
                   | Some v \<Rightarrow> py_str (getattr ev f PNone) \<noteq> py_str v)) xs)"
  by (induction xs) (auto simp: pending_row_def differs_def)

lemma validate_fields_set:
  assumes "EventUpdate_validate body = Inr p"
  shows "fields_set p = (\<lambda>f. if f \<in> set EventUpdate_fields \<and> f \<noteq> ''tag_ids''
                              then map_of (rev body) f else None)"
  using assms
  by (auto simp: EventUpdate_validate_def Let_def split: option.splits pyval.splits)

lemma patch_event_Inr:
  assumes "patch_event now s token eid body = Inr s'"
  obtains p where "EventUpdate_validate body = Inr p" and "update_event now s token eid p = Inr s'"
  using assms by (auto simp: patch_event_def split: sum.splits)

section \<open>The listings\<close>

lemma list_events_ignores_is_online:
  "list_events s search c organizer b tag = list_events s search c organizer None tag"
  by (cases b) (simp_all add: list_events_def Let_def)

lemma page_index_online_filter:
  assumes "page_index s cookie search online organizer tag = Inr rows"
  shows "online = Some ''true'' \<Longrightarrow> \<forall>e \<in> set rows. is_online e = PBool True"
    and "online = Some ''false'' \<Longrightarrow> \<forall>e \<in> set rows. is_online e = PBool False"
    and "online \<noteq> Some ''true'' \<Longrightarrow> online \<noteq> Some ''false'' \<Longrightarrow>
           page_index s cookie search None organizer tag = Inr rows"
  using assms
  by (auto simp: page_index_def Let_def join_tag_def split: sum.splits option.splits if_splits)

section \<open>The gate\<close>

lemma gate_sub_only:
  assumes "verifies t1 = verifies t2" and "payload t1 ''sub'' = payload t2 ''sub''"
  shows "get_current_user s (Some t1) = get_current_user s (Some t2)"
    and "get_current_user_cookie s (Some t1) = get_current_user_cookie s (Some t2)"
  using assms
  by (auto simp: get_current_user_def get_current_user_cookie_def get_user_from_cookie_def
        jwt_decode_def dict_get_def split: option.splits pyval.splits sum.splits)

lemma gate_admin_sub_only:
  assumes "verifies t1 = verifies t2" and "payload t1 ''sub'' = payload t2 ''sub''"
  shows "require_admin s (Some t1) = require_admin s (Some t2)"
    and "admin_from_cookie s (Some t1) = admin_from_cookie s (Some t2)"
  using gate_sub_only[OF assms, of s]
  by (simp_all add: require_admin_def admin_from_cookie_def)

lemma handle_gate_only:
  assumes "get_current_user s a = get_current_user s b"
    and "get_current_user_cookie s a = get_current_user_cookie s b"
  shows "handle now s (with_credentials r a) = handle now s (with_credentials r b)"
proof -
  from assms have ra: "require_admin s a = require_admin s b"
    and ac: "admin_from_cookie s a = admin_from_cookie s b"
    by (simp_all add: require_admin_def admin_from_cookie_def)
  show ?thesis
    by (cases r)
       (simp_all add: create_event_def update_event_def delete_event_def create_tag_def
          delete_tag_def create_organizer_def do_admin_event_create_def do_admin_event_edit_def
          do_admin_event_delete_def do_admin_tag_create_def do_admin_tag_delete_def
          do_admin_organizer_create_def add_bookmark_def remove_bookmark_def
          page_add_bookmark_def page_remove_bookmark_def ra ac assms)
qed

lemma require_admin_token_user:
  "require_admin s token =
     (case token_user s token of
        None \<Rightarrow> Inl (HTTPException 401)
      | Some u \<Rightarrow> if role u \<noteq> ''admin'' then Inl (HTTPException 403) else Inr u)"
  by (auto simp: require_admin_def get_current_user_def token_user_def jwt_decode_def dict_get_def
        split: option.splits pyval.splits sum.splits)

lemma admin_from_cookie_token_user:
  "admin_from_cookie s cookie =
     (case token_user s cookie of
        None \<Rightarrow> Inl (HTTPException 403)
      | Some u \<Rightarrow> if role u \<noteq> ''admin'' then Inl (HTTPException 403) else Inr u)"
  by (auto simp: admin_from_cookie_def require_admin_cookie_def get_current_user_cookie_def
        get_user_from_cookie_def token_user_def jwt_decode_def dict_get_def
        split: option.splits pyval.splits sum.splits)

section \<open>Tag replacement and commit\<close>

lemma get_event_Some: "get_event s eid = Some ev \<Longrightarrow> ev_id ev = eid \<and> ev \<in> set (events s)"
  by (auto simp: get_event_def find_Some_iff)

lemma tags_of_replace_tags: "tags_of (replace_tags eid tids s) eid = set tids"
proof -
  have "{et \<in> set (event_tags (replace_tags eid tids s)). event_id et = eid}
      = (\<lambda>tid. \<lparr>event_id = eid, tag_id = tid\<rparr>) ` set tids"
    by (auto simp: replace_tags_def)
  then show ?thesis by (simp add: tags_of_def image_image)
qed

lemma tags_of_replace_tags_other:
  "eid' \<noteq> eid \<Longrightarrow> tags_of (replace_tags eid tids s) eid' = tags_of s eid'"
proof -
  assume "eid' \<noteq> eid"
  then have "{et \<in> set (event_tags (replace_tags eid tids s)). event_id et = eid'}
      = {et \<in> set (event_tags s). event_id et = eid'}"
    by (auto simp: replace_tags_def)
  then show ?thesis by (simp add: tags_of_def)
qed

lemma event_tags_insert_audit_rows [simp]:
  "event_tags (insert_audit_rows now rows s) = event_tags s"
  by (simp add: insert_audit_rows_def)

lemma event_tags_replace_event [simp]: "event_tags (replace_event ev s) = event_tags s"
  by (simp add: replace_event_def)

lemma tags_insert_audit_rows [simp]: "tags (insert_audit_rows now rows s) = tags s"
  by (simp add: insert_audit_rows_def)

lemma tags_replace_event [simp]: "tags (replace_event ev s) = tags s"
  by (simp add: replace_event_def)

lemma tags_replace_tags [simp]: "tags (replace_tags eid tids s) = tags s"
  by (simp add: replace_tags_def)

lemma tags_of_cong: "event_tags s' = event_tags s \<Longrightarrow> tags_of s' eid = tags_of s eid"
  by (simp add: tags_of_def)

lemma commit_cases:
  "(\<exists>v. commit s = Inl (IntegrityError v) \<and> first_violation s = Some v)
   \<or> (commit s = Inr s \<and> integrity_ok s)"
  by (auto simp: commit_def first_violation_def integrity_ok_def split: option.splits)



lemma ev_ids_replace:
  "ev_id ev = k \<Longrightarrow> map ev_id (map (\<lambda>e. if ev_id e = k then ev else e) xs) = map ev_id xs"
  by (induction xs) simp_all

lemma replace_event_tables [simp]:
  "users (replace_event ev s) = users s" "organizers (replace_event ev s) = organizers s"
  "cities (replace_event ev s) = cities s" "bookmarks (replace_event ev s) = bookmarks s"
  "events (replace_event ev s) = map (\<lambda>e. if ev_id e = ev_id ev then ev else e) (events s)"
  by (simp_all add: replace_event_def)

lemma replace_tags_tables [simp]:
  "users (replace_tags eid tids s) = users s" "organizers (replace_tags eid tids s) = organizers s"
  "cities (replace_tags eid tids s) = cities s" "bookmarks (replace_tags eid tids s) = bookmarks s"
  "events (replace_tags eid tids s) = events s"
  "event_tags (replace_tags eid tids s) = filter (\<lambda>et. event_id et \<noteq> eid) (event_tags s)
                       @ map (\<lambda>tid. \<lparr>event_id = eid, tag_id = tid\<rparr>) tids"
  by (simp_all add: replace_tags_def)

lemma insert_audit_rows_tables [simp]:
  "users (insert_audit_rows now rows s) = users s" "organizers (insert_audit_rows now rows s) = organizers s"
  "cities (insert_audit_rows now rows s) = cities s" "bookmarks (insert_audit_rows now rows s) = bookmarks s"
  "events (insert_audit_rows now rows s) = events s"
  "audit_log (insert_audit_rows now [] s) = audit_log s"
  "set (audit_log (insert_audit_rows now rows s)) = set (audit_log s)
     \<union> (\<lambda>(k, r). r\<lparr>log_pk := Some (audit_id_seq s + 1 + int k), change_date := Some now\<rparr>)
         ` set (enumerate 0 rows)"
  by (simp_all add: insert_audit_rows_def)

lemma audit_loop_fst:
  "fst (audit_loop eid uid upd ev added) = foldl (\<lambda>e fv. setattr e (fst fv) (snd fv)) ev upd"
proof (induction upd arbitrary: ev added)
  case Nil
  show ?case by simp
next
  case (Cons a upd)
  obtain f v where a: "a = (f, v)" by (cases a)
  show ?case unfolding a by (simp add: Let_def Cons.IH)
qed

lemma audit_loop_rows_attr:
  "\<forall>r \<in> set added. log_event_id r = eid \<and> changed_by r = Some uid \<Longrightarrow>
   \<forall>r \<in> set (snd (audit_loop eid uid upd ev added)). log_event_id r = eid \<and> changed_by r = Some uid"
proof (induction upd arbitrary: ev added)
  case Nil
  then show ?case by simp
next
  case (Cons a upd)
  obtain f v where a: "a = (f, v)" by (cases a)
  let ?row = "\<lparr>log_pk = None, log_event_id = eid, changed_by = Some uid, changed_column = f,
               old_value = Some (py_str (getattr ev f PNone)), new_value = Some (py_str v),
               change_date = None\<rparr>"
  have p1: "\<forall>r \<in> set (added @ [?row]). log_event_id r = eid \<and> changed_by r = Some uid"
    using Cons.prems by simp
  show ?case
  proof (cases "py_str (getattr ev f PNone) \<noteq> py_str v")
    case True
    then have "audit_loop eid uid (a # upd) ev added = audit_loop eid uid upd (setattr ev f v) (added @ [?row])"
      unfolding a by (simp add: Let_def)
    then show ?thesis using Cons.IH[OF p1] by simp
  next
    case False
    then have "audit_loop eid uid (a # upd) ev added = audit_loop eid uid upd (setattr ev f v) added"
      unfolding a by (simp add: Let_def)
    then show ?thesis using Cons.IH[OF Cons.prems] by simp
  qed
qed

lemma updated_not_null:
  assumes "not_null_ok s" and "event_not_null ev"
  shows "not_null_ok (insert_audit_rows now rows (replace_event ev (replace_tags eid tids s)))"
proof -
  have "events (insert_audit_rows now rows (replace_event ev (replace_tags eid tids s)))
      = map (\<lambda>e. if ev_id e = ev_id ev then ev else e) (events s)"
    by simp
  moreover have "list_all event_not_null (map (\<lambda>e. if ev_id e = ev_id ev then ev else e) (events s))"
    using assms unfolding not_null_ok_def list_all_iff by auto
  ultimately show ?thesis unfolding not_null_ok_def by simp
qed

lemma updated_unique:
  assumes "unique_ok s" and "distinct tids"
  shows "unique_ok (insert_audit_rows now rows (replace_event ev (replace_tags eid tids s)))"
proof -
  have d1: "distinct (map (\<lambda>et. (event_id et, tag_id et)) (filter (\<lambda>et. event_id et \<noteq> eid) (event_tags s)))"
    using assms(1) by (simp add: unique_ok_def distinct_map_filter)
  have d2: "distinct (map (\<lambda>et. (event_id et, tag_id et)) (map (\<lambda>tid. \<lparr>event_id = eid, tag_id = tid\<rparr>) tids))"
    using assms(2) by (simp add: comp_def distinct_map inj_on_def)
  have d3: "distinct (map (\<lambda>et. (event_id et, tag_id et))
              (filter (\<lambda>et. event_id et \<noteq> eid) (event_tags s)
                       @ map (\<lambda>tid. \<lparr>event_id = eid, tag_id = tid\<rparr>) tids))"
    using d1 d2 by auto
  show ?thesis
    using assms(1) d3
    by (simp add: unique_ok_def ev_ids_replace del: map_map map_append)
qed



lemma updated_fk:
  assumes "foreign_keys_ok s" and "event_fk_ok s ev" and "ev_id ev \<in> set (map ev_id (events s))"
    and "ev_id ev = eid"
    and "\<forall>r \<in> set rows. log_event_id r = eid \<and> changed_by r = Some uid"
    and "rows \<noteq> [] \<longrightarrow> uid \<in> set (map user_pk (users s))"
  shows "foreign_keys_ok (insert_audit_rows now rows (replace_event ev (replace_tags eid tids s)))
         \<longleftrightarrow> set tids \<subseteq> set (map tag_pk (tags s))"
proof -
  let ?s2 = "insert_audit_rows now rows (replace_event ev (replace_tags eid tids s))"
  have ids: "map ev_id (events ?s2) = map ev_id (events s)"
    by (simp add: ev_ids_replace del: map_map)
  have efk: "event_fk_ok ?s2 = event_fk_ok s"
    by (intro ext) (simp add: event_fk_ok_def)
  have "list_all (event_fk_ok s) (events s)" using assms(1) by (simp add: foreign_keys_ok_def)
  then have ev_ok: "list_all (event_fk_ok ?s2) (events ?s2)"
    using assms(2) by (auto simp: list_all_iff efk)
  have bfk: "bookmark_fk_ok ?s2 = bookmark_fk_ok s"
    using ids by (intro ext) (simp add: bookmark_fk_ok_def del: map_map)
  have afk: "audit_fk_ok ?s2 = audit_fk_ok s"
    using ids by (intro ext) (simp add: audit_fk_ok_def del: map_map split: option.splits)
  have tfk: "event_tag_fk_ok ?s2 = event_tag_fk_ok s"
    using ids by (intro ext) (simp add: event_tag_fk_ok_def del: map_map)
  have eid_in: "eid \<in> set (map ev_id (events s))" using assms(3,4) by simp
  have new_ok: "list_all (event_tag_fk_ok s) (map (\<lambda>tid. \<lparr>event_id = eid, tag_id = tid\<rparr>) tids)
              \<longleftrightarrow> set tids \<subseteq> set (map tag_pk (tags s))"
    using eid_in by (auto simp: list_all_iff event_tag_fk_ok_def)
  have old_ok: "list_all (event_tag_fk_ok s) (filter (\<lambda>et. event_id et \<noteq> eid) (event_tags s))"
    using assms(1) by (auto simp: foreign_keys_ok_def list_all_iff)
  have bm: "list_all (bookmark_fk_ok s) (bookmarks s)" and au: "list_all (audit_fk_ok s) (audit_log s)"
    using assms(1) by (simp_all add: foreign_keys_ok_def)
  have new_rows: "audit_fk_ok s (r\<lparr>log_pk := a, change_date := b\<rparr>)" if "r \<in> set rows" for r a b
    using that assms(5,6) eid_in by (auto simp: audit_fk_ok_def)
  have au2: "list_all (audit_fk_ok s) (audit_log ?s2)"
    using au new_rows unfolding list_all_iff
    by (auto simp: in_set_enumerate_eq)
  have "foreign_keys_ok ?s2 \<longleftrightarrow>
          list_all (event_fk_ok ?s2) (events ?s2)
        \<and> list_all (event_tag_fk_ok ?s2) (event_tags ?s2)
        \<and> list_all (bookmark_fk_ok ?s2) (bookmarks ?s2)
        \<and> list_all (audit_fk_ok ?s2) (audit_log ?s2)"
    by (rule foreign_keys_ok_def)
  also have "\<dots> \<longleftrightarrow> list_all (event_tag_fk_ok s) (event_tags ?s2)"
    using ev_ok bm au2 by (simp add: bfk afk tfk)
  also have "\<dots> \<longleftrightarrow> set tids \<subseteq> set (map tag_pk (tags s))"
    using new_ok old_ok by simp
  finally show ?thesis .
qed

section \<open>The browser edit\<close>

lemma token_user_mem: "token_user s c = Some u \<Longrightarrow> u \<in> set (users s)"
  by (auto simp: token_user_def get_user_def find_Some_iff split: option.splits pyval.splits if_splits)

lemma admin_from_cookie_mem: "admin_from_cookie s c = Inr u \<Longrightarrow> u \<in> set (users s)"
  by (auto simp: admin_from_cookie_token_user split: option.splits if_splits dest: token_user_mem)

lemma form_updates_applied:
  "foldl (\<lambda>e fv. setattr e (fst fv) (snd fv)) event (form_updates f online) =
     event\<lparr>title := PStr (form_title f),
           organizer_id := PInt (form_organizer_id f),
           date_start := PDatetime (form_date_start f),
           date_end := datetime_or_none (form_date_end f),
           registration_deadline := datetime_or_none (form_registration_deadline f),
           price := decimal (form_price f),
           city_id := (case form_city_id f of None \<Rightarrow> PNone
                       | Some c \<Rightarrow> if c \<noteq> 0 then PInt c else PNone),
           location_address := str_or_none (form_location_address f),
           website_url := str_or_none (form_website_url f),
           description := str_or_none (form_description f),
           is_online := PBool (online = Some ''true'')\<rparr>"
  by (simp add: form_updates_def setattr_def column_of_def columns_def)

lemma do_admin_event_edit_commit:
  assumes "admin_from_cookie s cookie = Inr user" and "get_event s eid = Some event"
  shows "do_admin_event_edit now s cookie eid f online tids image_file =
     commit (insert_audit_rows now
               (snd (audit_loop eid (user_pk user) (form_updates f online) event []))
               (replace_event (edited_event now event f online image_file) (replace_tags eid tids s)))"
  using assms
  unfolding do_admin_event_edit_def edited_event_def Let_def split_beta audit_loop_fst
  by simp

lemma edited_event_props:
  "ev_id (edited_event now event f online image_file) = ev_id event"
  "created_at event \<noteq> PNone \<Longrightarrow> event_not_null (edited_event now event f online image_file)"
  "form_organizer_id f \<in> set (map organizer_pk (organizers s)) \<Longrightarrow>
   (case form_city_id f of None \<Rightarrow> True | Some c \<Rightarrow> c = 0 \<or> c \<in> set (map city_pk (cities s))) \<Longrightarrow>
   event_fk_ok s (edited_event now event f online image_file)"
  by (auto simp: edited_event_def form_updates_applied Let_def event_not_null_def event_fk_ok_def
        references_def decimal_def split: option.splits prod.splits)

section \<open>What a request does to the events table\<close>

lemma state_after_commit:
  "state_after s (commit s1) = s1 \<and> integrity_ok s1 \<and> \<not> isl (commit s1)
   \<or> state_after s (commit s1) = s \<and> isl (commit s1)"
  using commit_cases[of s1] by (auto simp: state_after_def)

lemma events_after_other:
  assumes "\<not> admin_only r \<or> (\<exists>c n. r = CreateTag c n) \<or> (\<exists>c n. r = DeleteTag c n)
           \<or> (\<exists>c n. r = CreateOrganizer c n) \<or> (\<exists>c n. r = PageTagCreate c n)
           \<or> (\<exists>c n. r = PageTagDelete c n) \<or> (\<exists>c n. r = PageOrganizerCreate c n)"
  shows "events (state_after s (handle now s r)) = events s"
proof -
  have c: "events (state_after s (commit s1)) = events s" if "events s1 = events s" for s1
    using state_after_commit[of s s1] that by auto
  have l: "events (state_after s (Inl e)) = events s" for e by (simp add: state_after_def)
  have n: "events (state_after s (Inr s)) = events s" by (simp add: state_after_def)
  from assms show ?thesis
    by (cases r)
       (auto simp: c l n create_tag_def delete_tag_def delete_tag_row_def create_organizer_def
          do_admin_tag_create_def do_admin_tag_delete_def do_admin_organizer_create_def
          add_bookmark_def remove_bookmark_def page_add_bookmark_def page_remove_bookmark_def
          do_register_def insert_tag_def insert_organizer_def insert_bookmark_def
          delete_bookmark_def
          split: sum.splits option.splits)
qed


lemma create_Inr:
  assumes "(\<exists>c f online t img. r = CreateEvent c f online t img)
         \<or> (\<exists>c f online t img. r = PageEventCreate c f online t img)"
    and "handle now s r = Inr s'"
  shows "\<exists>f city online key tids.
           commit (insert_event (new_event now s f city online key) tids s) = Inr s'"
  using assms
  by (elim disjE exE)
     (auto simp: create_event_def do_admin_event_create_def Let_def
           split: sum.splits option.splits error.splits if_splits, blast+)

lemma events_after_create:
  assumes "(\<exists>c f online t img. r = CreateEvent c f online t img)
         \<or> (\<exists>c f online t img. r = PageEventCreate c f online t img)"
  shows "events (state_after s (handle now s r)) = events s
       \<or> (\<exists>ev. events (state_after s (handle now s r)) = events s @ [ev]
                \<and> ev_id ev \<notin> set (map ev_id (events s)) \<and> updated_at ev = PNone)"
proof (cases "handle now s r")
  case (Inl e)
  then show ?thesis by (simp add: state_after_def)
next
  case (Inr s')
  from create_Inr[OF assms Inr] obtain f city online key tids
    where c: "commit (insert_event (new_event now s f city online key) tids s) = Inr s'"
    by blast
  let ?ev = "new_event now s f city online key"
  from c commit_cases[of "insert_event ?ev tids s"]
  have s': "s' = insert_event ?ev tids s" and ok: "integrity_ok (insert_event ?ev tids s)"
    by auto
  have "events s' = events s @ [?ev]" unfolding s' by (simp add: insert_event_def)
  moreover have "ev_id ?ev \<notin> set (map ev_id (events s))"
    using ok by (auto simp: integrity_ok_def unique_ok_def insert_event_def)
  moreover have "updated_at ?ev = PNone" by (simp add: new_event_def)
  ultimately show ?thesis using Inr by (auto simp: state_after_def)
qed

lemma events_after_delete:
  assumes "(\<exists>c eid. r = DeleteEvent c eid) \<or> (\<exists>c eid. r = PageEventDelete c eid)"
  shows "set (events (state_after s (handle now s r))) \<subseteq> set (events s)"
proof -
  have l: "events (state_after s (Inl e)) = events s" for e by (simp add: state_after_def)
  have n: "events (state_after s (Inr s)) = events s" by (simp add: state_after_def)
  have c: "set (events (state_after s (commit (delete_event_rows eid s)))) \<subseteq> set (events s)" for eid
    using state_after_commit[of s "delete_event_rows eid s"]
    by (auto simp: delete_event_rows_def)
  from assms show ?thesis
    by (auto simp: delete_event_def do_admin_event_delete_def l n split: sum.splits option.splits
             dest: subsetD[OF c])
qed

lemma ev_id_foldl_setattr:
  "ev_id (foldl (\<lambda>e fv. setattr e (fst fv) (snd fv)) ev upd) = ev_id ev"
  by (induction upd arbitrary: ev) (simp_all add: ev_id_setattr)

lemma events_after_update:
  assumes "r = UpdateEvent c eid p \<or> r = PageEventEdit c eid f online tids img"
    and "handle now s r = Inr s'"
  shows "\<exists>ev. events s' = map (\<lambda>e. if ev_id e = eid then ev else e) (events s) \<and> ev_id ev = eid
            \<and> (updated_at ev = PDatetime (now\<lparr>utcoffset := None\<rparr>)
                \<or> updated_at ev = PDatetime (now\<lparr>utcoffset := Some 0\<rparr>))"
  using assms(1)
proof
  assume r: "r = UpdateEvent c eid p"
  with assms(2) have u: "update_event now s c eid p = Inr s'" by simp
  then obtain admin event where a: "require_admin s c = Inr admin" and e: "get_event s eid = Some event"
    by (auto simp: update_event_def split: sum.splits option.splits)
  let ?ev = "(fst (audit_loop eid (user_pk admin) (model_dump p) event []))
               \<lparr>updated_at := PDatetime (now\<lparr>utcoffset := None\<rparr>)\<rparr>"
  have id: "ev_id ?ev = eid"
    using get_event_Some[OF e] by (simp add: audit_loop_fst ev_id_foldl_setattr)
  have "events s' = map (\<lambda>e. if ev_id e = ev_id ?ev then ?ev else e) (events s)"
    unfolding update_event_Inr(1)[OF a e u] by (simp split: option.splits)
  then have "events s' = map (\<lambda>e. if ev_id e = eid then ?ev else e) (events s)"
    unfolding id .
  with id show ?thesis by (intro exI[of _ ?ev]) simp
next
  assume r: "r = PageEventEdit c eid f online tids img"
  with assms(2) have u: "do_admin_event_edit now s c eid f online tids img = Inr s'" by simp
  then obtain user event where a: "admin_from_cookie s c = Inr user" and e: "get_event s eid = Some event"
    by (auto simp: do_admin_event_edit_def split: sum.splits option.splits)
  let ?ev = "edited_event now event f online img"
  let ?s2 = "insert_audit_rows now
               (snd (audit_loop eid (user_pk user) (form_updates f online) event []))
               (replace_event ?ev (replace_tags eid tids s))"
  have id: "ev_id ?ev = eid"
    using get_event_Some[OF e] by (simp add: edited_event_props(1))
  from u have "commit ?s2 = Inr s'" by (simp add: do_admin_event_edit_commit[OF a e])
  with commit_cases[of ?s2] have "s' = ?s2" by auto
  then have "events s' = map (\<lambda>e. if ev_id e = ev_id ?ev then ?ev else e) (events s)"
    by simp
  then have ev: "events s' = map (\<lambda>e. if ev_id e = eid then ?ev else e) (events s)"
    unfolding id .
  have "updated_at ?ev = PDatetime (now\<lparr>utcoffset := Some 0\<rparr>)"
    by (simp add: edited_event_def Let_def)
  with id ev show ?thesis by (intro exI[of _ ?ev]) simp
qed

lemma request_kinds:
  "(\<exists>c f online t img. r = CreateEvent c f online t img)
   \<or> (\<exists>c f online t img. r = PageEventCreate c f online t img)
   \<or> (\<exists>c eid p. r = UpdateEvent c eid p)
   \<or> (\<exists>c eid f online tids img. r = PageEventEdit c eid f online tids img)
   \<or> (\<exists>c eid. r = DeleteEvent c eid) \<or> (\<exists>c eid. r = PageEventDelete c eid)
   \<or> (\<not> admin_only r \<or> (\<exists>c n. r = CreateTag c n) \<or> (\<exists>c n. r = DeleteTag c n)
           \<or> (\<exists>c n. r = CreateOrganizer c n) \<or> (\<exists>c n. r = PageTagCreate c n)
           \<or> (\<exists>c n. r = PageTagDelete c n) \<or> (\<exists>c n. r = PageOrganizerCreate c n))"
  by (cases r) simp_all

section \<open>Listings without an order\<close>








section \<open>The claims\<close>

text \<open>
  Claim C1. For an existing event and any update payload, the audit rows the update
  produces name exactly the fields the payload sets explicitly (the tag selection apart,
  which is no column) whose string differs from the string of the stored value, each field
  once: this holds of the rows the handler adds to its session, and of the rows a committed
  update appends to the trail. A field left out, or set to a value with the stored string,
  gets no row.
\<close>

theorem update_event_audit_diff:
  assumes "require_admin s token = Inr admin" and "get_event s eid = Some event"
  shows "changed_column ` set (snd (audit_loop eid (user_pk admin) (model_dump p) event []))
           = {f \<in> set EventUpdate_fields. f \<noteq> ''tag_ids'' \<and>
                (case fields_set p f of None \<Rightarrow> False
                 | Some v \<Rightarrow> py_str (getattr event f PNone) \<noteq> py_str v)}
         \<and> (\<forall>s'. update_event now s token eid p = Inr s' \<longrightarrow>
               changed_column ` set (new_audit_rows s s')
                 = {f \<in> set EventUpdate_fields. f \<noteq> ''tag_ids'' \<and>
                      (case fields_set p f of None \<Rightarrow> False
                 | Some v \<Rightarrow> py_str (getattr event f PNone) \<noteq> py_str v)}
               \<and> distinct (map changed_column (new_audit_rows s s')))"
proof -
  let ?rows = "snd (audit_loop eid (user_pk admin) (model_dump p) event [])"
  let ?F = "{f \<in> set EventUpdate_fields. f \<noteq> ''tag_ids'' \<and>
                (case fields_set p f of None \<Rightarrow> False
                 | Some v \<Rightarrow> py_str (getattr event f PNone) \<noteq> py_str v)}"
  have cols: "map changed_column ?rows = map fst (filter (differs event) (model_dump p))"
    by (simp add: pending_rows pending_row_def comp_def)
  have A: "changed_column ` set ?rows = ?F"
  proof -
    have "changed_column ` set ?rows = set (map changed_column ?rows)" by simp
    also have "\<dots> = fst ` {fv \<in> set (model_dump p). differs event fv}"
      unfolding cols by simp
    also have "\<dots> = ?F"
      by (force simp: model_dump_set differs_def split: option.splits)
    finally show ?thesis .
  qed
  have D: "distinct (map changed_column ?rows)"
    unfolding cols using model_dump_distinct[of p] by (simp add: distinct_map_filter)
  have B: "changed_column ` set (new_audit_rows s s') = ?F \<and> distinct (map changed_column (new_audit_rows s s'))"
    if "update_event now s token eid p = Inr s'" for s'
  proof -
    have "map fst (map (\<lambda>r. (changed_column r, old_value r, new_value r)) (new_audit_rows s s'))
        = map fst (map (\<lambda>r. (changed_column r, old_value r, new_value r)) ?rows)"
      using update_event_new_rows[OF assms that] by simp
    then have eq: "map changed_column (new_audit_rows s s') = map changed_column ?rows"
      by (simp add: comp_def)
    have "changed_column ` set (new_audit_rows s s') = set (map changed_column (new_audit_rows s s'))"
      by simp
    with eq A D show ?thesis by (metis list.set_map)
  qed
  from A B show ?thesis by blast
qed


text \<open>Event A costs 10.00 and is titled A; setting the price to 12.50 and the title to A
  again yields the one row for the price.\<close>

theorem update_event_audit_diff_witness:
  "require_admin example_db (Some admin_token)
     = Inr \<lparr>user_pk = 1, email = ''admin@admin.com'', password_hash = ''h1'', role = ''admin''\<rparr>
   \<and> get_event example_db 1 = Some event_A
   \<and> \<not> isl (update_event noon example_db (Some admin_token) 1
              \<lparr>fields_set = [''price'' \<mapsto> PDecimal False 1250 (- 2), ''title'' \<mapsto> PStr ''A''],
               tag_ids = None\<rparr>)
   \<and> changed_column `
       set (new_audit_rows example_db
              (state_after example_db
                 (update_event noon example_db (Some admin_token) 1
                    \<lparr>fields_set = [''price'' \<mapsto> PDecimal False 1250 (- 2), ''title'' \<mapsto> PStr ''A''],
                     tag_ids = None\<rparr>)))
     = {''price''}"
proof -
  let ?p = "\<lparr>fields_set = [''price'' \<mapsto> PDecimal False 1250 (- 2), ''title'' \<mapsto> PStr ''A''],
             tag_ids = None\<rparr>"
  let ?r = "update_event noon example_db (Some admin_token) 1 ?p"
  have h1: "require_admin example_db (Some admin_token)
     = Inr \<lparr>user_pk = 1, email = ''admin@admin.com'', password_hash = ''h1'', role = ''admin''\<rparr>"
    by code_simp
  have h2: "get_event example_db 1 = Some event_A" by code_simp
  have h3: "\<not> isl ?r" by code_simp
  then obtain s' where h4: "?r = Inr s'" by (cases ?r) auto
  have rhs: "{f \<in> set EventUpdate_fields. f \<noteq> ''tag_ids'' \<and>
                (case fields_set ?p f of None \<Rightarrow> False
                 | Some v \<Rightarrow> py_str (getattr event_A f PNone) \<noteq> py_str v)} = {''price''}"
    by code_simp
  have "changed_column ` set (new_audit_rows example_db s') = {''price''}"
    using update_event_audit_diff[OF h1 h2, of ?p noon] h4 rhs by simp
  then show ?thesis using h1 h2 h3 h4 by (simp add: state_after_def)
qed

text \<open>
  Claim C10. Two tokens that verify alike and agree on every claim but the role claim get
  the same answer from the gate, on the bearer surface and on the cookie surface, and every
  endpoint does the same for both: the gate reads the subject from the token and the role
  from the user row of the database.
\<close>

theorem role_claim_is_ignored:
  assumes "verifies t1 = verifies t2"
    and "\<forall>k. k \<noteq> ''role'' \<longrightarrow> payload t1 k = payload t2 k"
  shows "get_current_user s (Some t1) = get_current_user s (Some t2)
       \<and> require_admin s (Some t1) = require_admin s (Some t2)
       \<and> get_current_user_cookie s (Some t1) = get_current_user_cookie s (Some t2)
       \<and> admin_from_cookie s (Some t1) = admin_from_cookie s (Some t2)
       \<and> handle now s (with_credentials r (Some t1)) = handle now s (with_credentials r (Some t2))"
proof -
  from assms(2) have sub: "payload t1 ''sub'' = payload t2 ''sub''" by simp
  note g = gate_sub_only[OF assms(1) sub, of s]
  note a = gate_admin_sub_only[OF assms(1) sub, of s]
  from g a handle_gate_only[OF g, of now r] show ?thesis by simp
qed

text \<open>A token of user 2, who is no administrator, that claims the role \<open>admin\<close> is refused
  like the honest token of user 2.\<close>

theorem role_claim_is_ignored_witness:
  "verifies user_token = verifies forged_token
   \<and> payload forged_token = (payload user_token)(''role'' \<mapsto> PStr ''admin'')
   \<and> payload user_token ''role'' = Some (PStr ''user'')
   \<and> require_admin example_db (Some forged_token) = Inl (HTTPException 403)
   \<and> admin_from_cookie example_db (Some forged_token) = Inl (HTTPException 403)
   \<and> handle noon example_db (DeleteEvent (Some forged_token) 1) = Inl (HTTPException 403)"
proof -
  have h1: "verifies user_token = verifies forged_token"
    by (simp add: user_token_def forged_token_def)
  have h2: "\<forall>k. k \<noteq> ''role'' \<longrightarrow> payload user_token k = payload forged_token k"
    by (simp add: user_token_def forged_token_def)
  have h3: "payload forged_token = (payload user_token)(''role'' \<mapsto> PStr ''admin'')"
    by (rule ext) (simp add: user_token_def forged_token_def)
  have h4: "payload user_token ''role'' = Some (PStr ''user'')"
    by (simp add: user_token_def)
  have u1: "require_admin example_db (Some user_token) = Inl (HTTPException 403)" by code_simp
  have u2: "admin_from_cookie example_db (Some user_token) = Inl (HTTPException 403)" by code_simp
  have u3: "handle noon example_db (DeleteEvent (Some user_token) 1) = Inl (HTTPException 403)"
    by code_simp
  note T = role_claim_is_ignored[OF h1 h2, of example_db noon "DeleteEvent (Some user_token) 1"]
  from T have e1: "require_admin example_db (Some user_token) = require_admin example_db (Some forged_token)"
    by blast
  from T have e2: "admin_from_cookie example_db (Some user_token) = admin_from_cookie example_db (Some forged_token)"
    by blast
  from T have e3: "handle noon example_db (DeleteEvent (Some user_token) 1)
                 = handle noon example_db (DeleteEvent (Some forged_token) 1)"
    by simp
  have "require_admin example_db (Some forged_token) = Inl (HTTPException 403)
      \<and> admin_from_cookie example_db (Some forged_token) = Inl (HTTPException 403)
      \<and> handle noon example_db (DeleteEvent (Some forged_token) 1) = Inl (HTTPException 403)"
    using e1[symmetric] e2[symmetric] e3[symmetric] u1 u2 u3 by (simp only: simp_thms)
  with h1 h3 h4 show ?thesis by blast
qed



text \<open>
  Claim C3. An admin-only endpoint, called without a credential or with a credential
  whose user is not an administrator (or that names no stored user at all), answers 401
  or 403 from its gate, which runs before anything else, and the stored state is the state
  before the request.
\<close>

theorem admin_endpoints_fail_closed:
  assumes "admin_only r"
    and "case token_user s (credentials r) of None \<Rightarrow> True | Some u \<Rightarrow> role u \<noteq> ''admin''"
  shows "(handle now s r = Inl (HTTPException 401) \<or> handle now s r = Inl (HTTPException 403))
       \<and> state_after s (handle now s r) = s"
proof -
  have api: "require_admin s (credentials r) = Inl (HTTPException 401)
           \<or> require_admin s (credentials r) = Inl (HTTPException 403)"
    using assms(2) by (auto simp: require_admin_token_user split: option.splits)
  have page: "admin_from_cookie s (credentials r) = Inl (HTTPException 403)"
    using assms(2) by (auto simp: admin_from_cookie_token_user split: option.splits)
  have "handle now s r = Inl (HTTPException 401) \<or> handle now s r = Inl (HTTPException 403)"
    using assms(1) api page
    by (cases r)
       (auto simp: create_event_def update_event_def delete_event_def create_tag_def
          delete_tag_def create_organizer_def do_admin_event_create_def do_admin_event_edit_def
          do_admin_event_delete_def do_admin_tag_create_def do_admin_tag_delete_def
          do_admin_organizer_create_def)
  then show ?thesis by (auto simp: state_after_def)
qed

text \<open>User 2 of the small database is no administrator: the update of event A under that
  user's token is refused with 403 and changes nothing; without credentials the page
  surface answers 403 and the bearer surface 401.\<close>

theorem admin_endpoints_fail_closed_witness:
  "admin_only (UpdateEvent (Some user_token) 1 \<lparr>fields_set = [''title'' \<mapsto> PStr ''Z''], tag_ids = Some [3]\<rparr>)
   \<and> token_user example_db (Some user_token)
       = Some \<lparr>user_pk = 2, email = ''guest@example.org'', password_hash = ''h2'', role = ''user''\<rparr>
   \<and> handle noon example_db
        (UpdateEvent (Some user_token) 1 \<lparr>fields_set = [''title'' \<mapsto> PStr ''Z''], tag_ids = Some [3]\<rparr>)
       = Inl (HTTPException 403)
   \<and> state_after example_db
        (handle noon example_db
           (UpdateEvent (Some user_token) 1 \<lparr>fields_set = [''title'' \<mapsto> PStr ''Z''], tag_ids = Some [3]\<rparr>))
       = example_db
   \<and> handle noon example_db (PageEventDelete None 1) = Inl (HTTPException 403)
   \<and> handle noon example_db (DeleteEvent None 1) = Inl (HTTPException 401)"
proof -
  let ?r = "UpdateEvent (Some user_token) 1 \<lparr>fields_set = [''title'' \<mapsto> PStr ''Z''], tag_ids = Some [3]\<rparr>"
  have h1: "admin_only ?r" by simp
  have tu: "token_user example_db (Some user_token)
       = Some \<lparr>user_pk = 2, email = ''guest@example.org'', password_hash = ''h2'', role = ''user''\<rparr>"
    by code_simp
  have h2: "case token_user example_db (credentials ?r) of None \<Rightarrow> True | Some u \<Rightarrow> role u \<noteq> ''admin''"
    by (simp add: tu)
  have ne: "handle noon example_db ?r \<noteq> Inl (HTTPException 401)" by code_simp
  note T = admin_endpoints_fail_closed[OF h1 h2, of noon]
  from T ne have a: "handle noon example_db ?r = Inl (HTTPException 403)" by blast
  from T have b: "state_after example_db (handle noon example_db ?r) = example_db" by blast
  have c: "handle noon example_db (PageEventDelete None 1) = Inl (HTTPException 403)" by code_simp
  have d: "handle noon example_db (DeleteEvent None 1) = Inl (HTTPException 401)" by code_simp
  from h1 tu a b c d show ?thesis by blast
qed

text \<open>
  Claim C4. Take any request to a mutating endpoint and any event stored after it. If the
  request is an update of that event and it committed, the event's \<open>updated_at\<close> is the time
  of the request. In every other case the event is a row that was stored before, unchanged,
  or it is the event the request created, under a new identifier and with \<open>updated_at\<close>
  null. So creation leaves \<open>updated_at\<close> null, an applied update assigns it, and nothing else
  touches it.
\<close>

theorem updated_at_assigned_only_by_update:
  "\<forall>e' \<in> set (events (state_after s (handle now s r))).
      (updates_event r = Some (ev_id e') \<and> \<not> isl (handle now s r)
         \<longrightarrow> updated_at e' = PDatetime (now\<lparr>utcoffset := None\<rparr>)
             \<or> updated_at e' = PDatetime (now\<lparr>utcoffset := Some 0\<rparr>))
    \<and> (updates_event r \<noteq> Some (ev_id e') \<or> isl (handle now s r)
         \<longrightarrow> e' \<in> set (events s)
             \<or> (ev_id e' \<notin> set (map ev_id (events s)) \<and> updated_at e' = PNone))"
proof
  fix e'
  assume mem: "e' \<in> set (events (state_after s (handle now s r)))"
  let ?P = "(updates_event r = Some (ev_id e') \<and> \<not> isl (handle now s r)
         \<longrightarrow> updated_at e' = PDatetime (now\<lparr>utcoffset := None\<rparr>)
             \<or> updated_at e' = PDatetime (now\<lparr>utcoffset := Some 0\<rparr>))
    \<and> (updates_event r \<noteq> Some (ev_id e') \<or> isl (handle now s r)
         \<longrightarrow> e' \<in> set (events s)
             \<or> (ev_id e' \<notin> set (map ev_id (events s)) \<and> updated_at e' = PNone))"
  have failed: ?P if "isl (handle now s r)"
  proof -
    from that have "state_after s (handle now s r) = s"
      by (cases "handle now s r") (simp_all add: state_after_def)
    with mem that show ?thesis by simp
  qed
  have upd: ?P
    if r: "r = UpdateEvent c eid p \<or> r = PageEventEdit c eid f online tids img"
    for c eid p f online tids img
  proof (cases "handle now s r")
    case (Inl e)
    then show ?thesis using failed by simp
  next
    case (Inr s')
    from events_after_update[OF r Inr] obtain ev
      where ev: "events s' = map (\<lambda>e. if ev_id e = eid then ev else e) (events s)"
        and id: "ev_id ev = eid"
        and at: "updated_at ev = PDatetime (now\<lparr>utcoffset := None\<rparr>)
                \<or> updated_at ev = PDatetime (now\<lparr>utcoffset := Some 0\<rparr>)"
      by blast
    from r have tgt: "updates_event r = Some eid" by auto
    from mem Inr ev have "e' = ev \<or> (e' \<in> set (events s) \<and> ev_id e' \<noteq> eid)"
      by (auto simp: state_after_def split: if_splits)
    then show ?thesis
    proof
      assume "e' = ev"
      with id at tgt Inr show ?thesis by simp
    next
      assume "e' \<in> set (events s) \<and> ev_id e' \<noteq> eid"
      with tgt show ?thesis by simp
    qed
  qed
  have unchanged: ?P
    if sub: "set (events (state_after s (handle now s r))) \<subseteq> set (events s)"
      and no: "updates_event r = None"
  proof -
    from mem sub have "e' \<in> set (events s)" by blast
    with no show ?thesis by simp
  qed
  from request_kinds[of r] show ?P
  proof (elim disjE exE)
    fix c f online t img
    assume r: "r = CreateEvent c f online t img"
    then have no: "updates_event r = None" by simp
    from r events_after_create[of r s now] mem no show ?P by auto
  next
    fix c f online t img
    assume r: "r = PageEventCreate c f online t img"
    then have no: "updates_event r = None" by simp
    from r events_after_create[of r s now] mem no show ?P by auto
  next
    fix c eid p
    assume "r = UpdateEvent c eid p"
    then show ?P using upd by blast
  next
    fix c eid f online tids img
    assume "r = PageEventEdit c eid f online tids img"
    then show ?P using upd by blast
  next
    fix c eid
    assume r: "r = DeleteEvent c eid"
    then show ?P using events_after_delete[of r s now] by (intro unchanged) auto
  next
    fix c eid
    assume r: "r = PageEventDelete c eid"
    then show ?P using events_after_delete[of r s now] by (intro unchanged) auto
  next
    assume r: "\<not> admin_only r"
    then have "updates_event r = None" by (cases r) simp_all
    with r show ?P using events_after_other[of r s now] by (intro unchanged) auto
  next
    fix c n assume r: "r = CreateTag c n"
    then show ?P using events_after_other[of r s now] by (intro unchanged) auto
  next
    fix c n assume r: "r = DeleteTag c n"
    then show ?P using events_after_other[of r s now] by (intro unchanged) auto
  next
    fix c n assume r: "r = CreateOrganizer c n"
    then show ?P using events_after_other[of r s now] by (intro unchanged) auto
  next
    fix c n assume r: "r = PageTagCreate c n"
    then show ?P using events_after_other[of r s now] by (intro unchanged) auto
  next
    fix c n assume r: "r = PageTagDelete c n"
    then show ?P using events_after_other[of r s now] by (intro unchanged) auto
  next
    fix c n assume r: "r = PageOrganizerCreate c n"
    then show ?P using events_after_other[of r s now] by (intro unchanged) auto
  qed
qed

text \<open>On the small database: an update of event A by the administrator stores A with the
  time of the request, and a creation stores a new event, absent before, whose
  \<open>updated_at\<close> is null.\<close>

theorem updated_at_assigned_only_by_update_witness:
  "event_A\<lparr>updated_at := PDatetime noon\<rparr>
     \<in> set (events (state_after example_db
                       (handle noon example_db
                          (UpdateEvent (Some admin_token) 1 \<lparr>fields_set = Map.empty, tag_ids = None\<rparr>))))
   \<and> updated_at event_A = PNone
   \<and> (updated_at (event_A\<lparr>updated_at := PDatetime noon\<rparr>) = PDatetime (noon\<lparr>utcoffset := None\<rparr>)
        \<or> updated_at (event_A\<lparr>updated_at := PDatetime noon\<rparr>) = PDatetime (noon\<lparr>utcoffset := Some 0\<rparr>))
   \<and> new_event noon example_db form_A (PInt 1) (PBool True) PNone
     \<in> set (events (state_after example_db
                       (handle noon example_db (CreateEvent (Some admin_token) form_A True None None))))
   \<and> new_event noon example_db form_A (PInt 1) (PBool True) PNone \<notin> set (events example_db)
   \<and> updated_at (new_event noon example_db form_A (PInt 1) (PBool True) PNone) = PNone"
proof -
  let ?R1 = "UpdateEvent (Some admin_token) 1 \<lparr>fields_set = Map.empty, tag_ids = None\<rparr>"
  let ?E1 = "event_A\<lparr>updated_at := PDatetime noon\<rparr>"
  let ?R2 = "CreateEvent (Some admin_token) form_A True None None"
  let ?E2 = "new_event noon example_db form_A (PInt 1) (PBool True) PNone"
  have m1: "?E1 \<in> set (events (state_after example_db (handle noon example_db ?R1)))"
    by code_simp
  have t1: "updates_event ?R1 = Some (ev_id ?E1)" by code_simp
  have ok1: "\<not> isl (handle noon example_db ?R1)" by code_simp
  have n1: "updated_at event_A = PNone" by code_simp
  have m2: "?E2 \<in> set (events (state_after example_db (handle noon example_db ?R2)))"
    by code_simp
  have n2: "?E2 \<notin> set (events example_db)" by code_simp
  have t2: "updates_event ?R2 \<noteq> Some (ev_id ?E2)" by simp
  from updated_at_assigned_only_by_update[of example_db noon ?R1] m1 t1 ok1
  have a: "updated_at ?E1 = PDatetime (noon\<lparr>utcoffset := None\<rparr>)
         \<or> updated_at ?E1 = PDatetime (noon\<lparr>utcoffset := Some 0\<rparr>)"
    by blast
  from updated_at_assigned_only_by_update[of example_db noon ?R2] m2 t2 n2
  have b: "updated_at ?E2 = PNone" by blast
  from m1 n1 a m2 n2 b show ?thesis by blast
qed

text \<open>
  Claim C5, at the API listing. \<open>GET /api/v1/events?is_online=true\<close> reaches the handler with
  the bool \<open>True\<close>, as the parameter is declared; the handler compares it with the strings
  \<open>"true"\<close> and \<open>"false"\<close>, finds neither, and applies no online filter: event B, which is not
  online, is listed with the others.
\<close>

theorem list_events_online_true_unfiltered:
  "list_events example_db None None None (Some True) None = Inr [event_A, event_B, event_C]
   \<and> is_online event_B = PBool False"
  by code_simp

text \<open>
  Claim C6, at the API listing. With no filter the three events are returned. With city 1
  and the online flag the handler calls \<open>strip\<close> on the int it was given for \<open>city_id\<close> and
  raises \<open>AttributeError\<close>: no event list is returned, where the claim expects exactly A.
\<close>

theorem list_events_city_filter_raises:
  "list_events example_db None None None None None = Inr [event_A, event_B, event_C]
   \<and> list_events example_db None (Some 1) None (Some True) None = Inl AttributeError"
  by code_simp

text \<open>
  Claim C7, as amended. The rows one committed update appends to the audit trail are
  (field name, old string, new string) triples, one per set field whose string changed,
  and they come in the order in which \<open>EventUpdate\<close> declares its fields: the order of the
  keys in the request body plays no part.
\<close>

theorem audit_rows_in_declared_order:
  assumes "require_admin s token = Inr admin" and "get_event s eid = Some event"
    and "patch_event now s token eid body = Inr s'"
  shows "map (\<lambda>r. (changed_column r, old_value r, new_value r)) (new_audit_rows s s')
       = map (\<lambda>f. (f, Some (py_str (getattr event f PNone)),
                      Some (py_str (the (map_of (rev body) f)))))
           (filter (\<lambda>f. f \<noteq> ''tag_ids'' \<and>
                      (case map_of (rev body) f of None \<Rightarrow> False
                       | Some v \<Rightarrow> py_str (getattr event f PNone) \<noteq> py_str v))
              EventUpdate_fields)"
proof -
  from assms(3) obtain p where v: "EventUpdate_validate body = Inr p"
    and u: "update_event now s token eid p = Inr s'"
    by (rule patch_event_Inr)
  have fs: "fields_set p f = map_of (rev body) f"
    if "f \<in> set EventUpdate_fields" "f \<noteq> ''tag_ids''" for f
    using that by (simp add: validate_fields_set[OF v])
  have "map (\<lambda>r. (changed_column r, old_value r, new_value r)) (new_audit_rows s s')
      = map (\<lambda>r. (changed_column r, old_value r, new_value r))
          (map (pending_row eid (user_pk admin) event) (filter (differs event) (model_dump p)))"
    by (simp only: update_event_new_rows[OF assms(1,2) u] pending_rows)
  also have "\<dots>
      = map (\<lambda>f. (f, Some (py_str (getattr event f PNone)), Some (py_str (the (fields_set p f)))))
          (filter (\<lambda>f. f \<noteq> ''tag_ids'' \<and>
                     (case fields_set p f of None \<Rightarrow> False
                      | Some v \<Rightarrow> py_str (getattr event f PNone) \<noteq> py_str v))
             EventUpdate_fields)"
    unfolding model_dump_eq by (rule rows_of_dump_gen)
  also have "\<dots> = map (\<lambda>f. (f, Some (py_str (getattr event f PNone)),
                      Some (py_str (the (map_of (rev body) f)))))
           (filter (\<lambda>f. f \<noteq> ''tag_ids'' \<and>
                      (case fields_set p f of None \<Rightarrow> False
                       | Some v \<Rightarrow> py_str (getattr event f PNone) \<noteq> py_str v))
              EventUpdate_fields)"
    by (rule map_cong) (auto simp: fs)
  also have "(filter (\<lambda>f. f \<noteq> ''tag_ids'' \<and>
                      (case fields_set p f of None \<Rightarrow> False
                       | Some v \<Rightarrow> py_str (getattr event f PNone) \<noteq> py_str v))
              EventUpdate_fields) = (filter (\<lambda>f. f \<noteq> ''tag_ids'' \<and>
                      (case map_of (rev body) f of None \<Rightarrow> False
                       | Some v \<Rightarrow> py_str (getattr event f PNone) \<noteq> py_str v))
              EventUpdate_fields)"
    by (rule filter_cong) (auto simp: fs)
  finally show ?thesis .
qed

text \<open>
  A request that supplies the price before the title gets the title row before the price
  row, so the rows are not in the order of the request.
\<close>

theorem audit_request_order_counterexample:
  "map changed_column
     (new_audit_rows example_db
        (state_after example_db
           (patch_event noon example_db (Some admin_token) 1
              [(''price'', PDecimal False 1250 (- 2)), (''title'', PStr ''Summit'')])))
   = [''title'', ''price'']"
  by code_simp

text \<open>The same request satisfies the hypotheses of the amended statement.\<close>

theorem audit_rows_in_declared_order_witness:
  "require_admin example_db (Some admin_token)
     = Inr \<lparr>user_pk = 1, email = ''admin@admin.com'', password_hash = ''h1'', role = ''admin''\<rparr>
   \<and> get_event example_db 1 = Some event_A
   \<and> \<not> isl (patch_event noon example_db (Some admin_token) 1
              [(''price'', PDecimal False 1250 (- 2)), (''title'', PStr ''Summit'')])
   \<and> map (\<lambda>r. (changed_column r, old_value r, new_value r))
       (new_audit_rows example_db
          (state_after example_db
             (patch_event noon example_db (Some admin_token) 1
                [(''price'', PDecimal False 1250 (- 2)), (''title'', PStr ''Summit'')])))
     = [(''title'', Some ''A'', Some ''Summit''), (''price'', Some ''10.00'', Some ''12.50'')]"
proof -
  let ?body = "[(''price'', PDecimal False 1250 (- 2)), (''title'', PStr ''Summit'')]"
  let ?r = "patch_event noon example_db (Some admin_token) 1 ?body"
  have h1: "require_admin example_db (Some admin_token)
     = Inr \<lparr>user_pk = 1, email = ''admin@admin.com'', password_hash = ''h1'', role = ''admin''\<rparr>"
    by code_simp
  have h2: "get_event example_db 1 = Some event_A" by code_simp
  have h3: "\<not> isl ?r" by code_simp
  then obtain s' where h4: "?r = Inr s'" by (cases ?r) auto
  have rhs: "map (\<lambda>f. (f, Some (py_str (getattr event_A f PNone)),
                      Some (py_str (the (map_of (rev ?body) f)))))
           (filter (\<lambda>f. f \<noteq> ''tag_ids'' \<and>
                      (case map_of (rev ?body) f of None \<Rightarrow> False
                       | Some v \<Rightarrow> py_str (getattr event_A f PNone) \<noteq> py_str v))
              EventUpdate_fields)
        = [(''title'', Some ''A'', Some ''Summit''), (''price'', Some ''10.00'', Some ''12.50'')]"
    by code_simp
  have "map (\<lambda>r. (changed_column r, old_value r, new_value r)) (new_audit_rows example_db s')
       = [(''title'', Some ''A'', Some ''Summit''), (''price'', Some ''10.00'', Some ''12.50'')]"
    using audit_rows_in_declared_order[OF h1 h2 h4] rhs by simp
  then show ?thesis using h1 h2 h3 h4 by (simp add: state_after_def)
qed




text \<open>
  Claim C9. On the browser surface the edit of an event by an administrator, when it
  commits, leaves the event with exactly the tag ids of the form, whatever tags it had; a
  form without tag ids leaves it with none. The edit commits on a consistent database
  whenever the form names an existing organizer and city (or no city) and existing tags
  without repetition, so a form without tag ids does remove every association.
\<close>

theorem page_edit_replaces_tags:
  assumes "admin_from_cookie s cookie = Inr user" and "get_event s eid = Some event"
  shows "(\<forall>s'. do_admin_event_edit now s cookie eid f online tids image_file = Inr s'
            \<longrightarrow> tags_of s' eid = set tids)
       \<and> (\<forall>s'. do_admin_event_edit now s cookie eid f online [] image_file = Inr s'
            \<longrightarrow> tags_of s' eid = {})
       \<and> (integrity_ok s \<and> distinct tids \<and> set tids \<subseteq> set (map tag_pk (tags s))
          \<and> form_organizer_id f \<in> set (map organizer_pk (organizers s))
          \<and> (case form_city_id f of None \<Rightarrow> True
              | Some c \<Rightarrow> c = 0 \<or> c \<in> set (map city_pk (cities s)))
            \<longrightarrow> (\<exists>s'. do_admin_event_edit now s cookie eid f online tids image_file = Inr s'))"
proof -
  have A: "tags_of s' eid = set ts"
    if "do_admin_event_edit now s cookie eid f online ts image_file = Inr s'" for s' ts
  proof -
    from that have "commit (insert_audit_rows now
               (snd (audit_loop eid (user_pk user) (form_updates f online) event []))
               (replace_event (edited_event now event f online image_file) (replace_tags eid ts s)))
             = Inr s'"
      by (simp add: do_admin_event_edit_commit[OF assms])
    then have "event_tags s' = event_tags (replace_tags eid ts s)"
      using commit_cases[of "insert_audit_rows now
               (snd (audit_loop eid (user_pk user) (form_updates f online) event []))
               (replace_event (edited_event now event f online image_file) (replace_tags eid ts s))"]
      by auto
    then show ?thesis using tags_of_cong tags_of_replace_tags by metis
  qed
  have C: "\<exists>s'. do_admin_event_edit now s cookie eid f online tids image_file = Inr s'"
    if h: "integrity_ok s \<and> distinct tids \<and> set tids \<subseteq> set (map tag_pk (tags s))
          \<and> form_organizer_id f \<in> set (map organizer_pk (organizers s))
          \<and> (case form_city_id f of None \<Rightarrow> True
              | Some c \<Rightarrow> c = 0 \<or> c \<in> set (map city_pk (cities s)))"
  proof -
    let ?rows = "snd (audit_loop eid (user_pk user) (form_updates f online) event [])"
    let ?ev = "edited_event now event f online image_file"
    let ?s2 = "insert_audit_rows now ?rows (replace_event ?ev (replace_tags eid tids s))"
    from get_event_Some[OF assms(2)] have id: "ev_id event = eid" and mem: "event \<in> set (events s)"
      by simp_all
    from h mem have cr: "created_at event \<noteq> PNone"
      by (auto simp: integrity_ok_def not_null_ok_def list_all_iff event_not_null_def)
    have nn: "not_null_ok ?s2"
      using h edited_event_props(2)[OF cr] by (intro updated_not_null) (simp_all add: integrity_ok_def)
    have un: "unique_ok ?s2" using h by (simp add: integrity_ok_def updated_unique)
    have fke: "event_fk_ok s ?ev" using h by (intro edited_event_props(3)) simp_all
    have rows: "\<forall>r \<in> set ?rows. log_event_id r = eid \<and> changed_by r = Some (user_pk user)"
      by (rule audit_loop_rows_attr) simp
    have usr: "user_pk user \<in> set (map user_pk (users s))"
      using admin_from_cookie_mem[OF assms(1)] by simp
    have "foreign_keys_ok ?s2 \<longleftrightarrow> set tids \<subseteq> set (map tag_pk (tags s))"
      using h fke rows usr id mem
      by (intro updated_fk) (auto simp: integrity_ok_def edited_event_props(1))
    with h have fk: "foreign_keys_ok ?s2" by simp
    show ?thesis
      unfolding do_admin_event_edit_commit[OF assms] using nn un fk
      by (simp add: commit_def first_violation_def)
  qed
  from A[of tids] A[of "[]"] C show ?thesis by simp
qed

text \<open>Event A carries the tags 1 and 2; its edit form sent back unchanged and without tag
  ids commits and leaves it without tags.\<close>

theorem page_edit_replaces_tags_witness:
  "admin_from_cookie example_db (Some admin_token)
     = Inr \<lparr>user_pk = 1, email = ''admin@admin.com'', password_hash = ''h1'', role = ''admin''\<rparr>
   \<and> get_event example_db 1 = Some event_A
   \<and> integrity_ok example_db
   \<and> tags_of example_db 1 = {1, 2}
   \<and> \<not> isl (do_admin_event_edit noon example_db (Some admin_token) 1 form_A (Some ''true'') [] None)
   \<and> tags_of (state_after example_db
                 (do_admin_event_edit noon example_db (Some admin_token) 1 form_A (Some ''true'') []
                    None)) 1 = {}"
proof -
  let ?r = "do_admin_event_edit noon example_db (Some admin_token) 1 form_A (Some ''true'') [] None"
  have h1: "admin_from_cookie example_db (Some admin_token)
     = Inr \<lparr>user_pk = 1, email = ''admin@admin.com'', password_hash = ''h1'', role = ''admin''\<rparr>"
    by code_simp
  have h2: "get_event example_db 1 = Some event_A" by code_simp
  have h3: "integrity_ok example_db" by code_simp
  have h4: "tags_of example_db 1 = {1, 2}" by code_simp
  have org: "form_organizer_id form_A \<in> set (map organizer_pk (organizers example_db))" by code_simp
  have cty: "case form_city_id form_A of None \<Rightarrow> True
             | Some c \<Rightarrow> c = 0 \<or> c \<in> set (map city_pk (cities example_db))"
    by code_simp
  note T = page_edit_replaces_tags[OF h1 h2, of noon form_A "Some ''true''" "[]" None]
  from T h3 org cty obtain s' where s': "?r = Inr s'" by auto
  with T have "tags_of s' 1 = {}" by simp
  with s' have a: "tags_of (state_after example_db ?r) 1 = {}" by (simp add: state_after_def)
  from s' have b: "\<not> isl ?r" by simp
  from h1 h2 h3 h4 a b show ?thesis by blast
qed

end
